theory Spec2Isabelle
  imports
    Main
    "HOL-Library.AList"
    "HOL-Library.Word"
    "HOL-Library.Char_ord"
    "HOL-Library.List_Lexorder"
begin

unbundle bit_operations_syntax

section \<open>JavaScript values\<close>

text \<open>
  The persistence layer of the directory application (\<^verbatim>\<open>utils/dataLoader.ts\<close>, which is
  the source file \<^verbatim>\<open>unnamed/part_002\<close>, \<^verbatim>\<open>utils/dataWriter.ts\<close>, and the import handler of
  \<^verbatim>\<open>pages/AdminPage.tsx\<close>) works on values that come out of \<^verbatim>\<open>JSON.parse\<close>. The TypeScript types \<^verbatim>\<open>NavigationData\<close> and
  \<^verbatim>\<open>Agent\<close> are erased at run time and the type guards check less than the types say, so
  the model keeps the run-time values: a document is a \<open>json\<close> value, an object is its
  list of properties in the order they were written, and \<^verbatim>\<open>undefined\<close> is \<open>None\<close> of
  \<open>json option\<close>. Numbers are opaque to this program and are kept as integers;
  \<open>JNonFinite\<close> is a number that is not finite (\<^verbatim>\<open>JSON.parse\<close> reads \<^verbatim>\<open>1e999\<close> as
  \<^verbatim>\<open>Infinity\<close>).

  A JavaScript string is a sequence of UTF-16 code units, and so is a string value
  here: a \<open>jstring\<close> is a list of 16-bit words, compared, indexed and cut by code unit as
  in JavaScript. \<open>utf16\<close> writes a string of code units below 256 from the characters of
  an Isabelle literal. The texts kept in storage and in files are strings of the language
  as well. Only the property names of the objects are written as \<open>string\<close>.
\<close>

type_synonym code_unit = "16 word"

type_synonym jstring = "code_unit list"

definition utf16 :: "string \<Rightarrow> jstring" where
  "utf16 s = map (\<lambda>c. of_nat (of_char c)) s"

datatype json =
    JNull
  | JBool bool
  | JNum int
  | JNonFinite
  | JStr jstring
  | JArr "json list"
  | JObj "(string \<times> json) list"

text \<open>One constructor for each place where the source throws or rejects.\<close>

datatype error =
    TypeError                \<comment> \<open>property read on \<^verbatim>\<open>null\<close> or \<^verbatim>\<open>undefined\<close>, call of a non-function\<close>
  | SyntaxError              \<comment> \<open>\<^verbatim>\<open>response.json()\<close> on a body that is not JSON\<close>
  | NetworkError             \<comment> \<open>\<^verbatim>\<open>fetch\<close> rejected\<close>
  | QuotaExceeded            \<comment> \<open>\<^verbatim>\<open>localStorage.setItem\<close> threw\<close>
  | FetchFailed nat string   \<comment> \<open>\<^verbatim>\<open>Failed to fetch navigation data: ${status} ${statusText}\<close>\<close>
  | InvalidStructure         \<comment> \<open>\<^verbatim>\<open>Invalid navigation data structure\<close>\<close>
  | AlreadyExists jstring    \<comment> \<open>\<^verbatim>\<open>Item with id "${id}" already exists\<close>\<close>
  | NotFound jstring         \<comment> \<open>\<^verbatim>\<open>Item with id "${itemId}" not found\<close>\<close>
  | InvalidUpload            \<comment> \<open>\<^verbatim>\<open>Invalid navigation data structure in uploaded file\<close>\<close>
  | UploadParseError         \<comment> \<open>\<^verbatim>\<open>Error parsing uploaded JSON file\<close>\<close>
  | UploadReadError          \<comment> \<open>\<^verbatim>\<open>Error reading uploaded file\<close>\<close>

fun typeof :: "json option \<Rightarrow> string" where
  "typeof None = ''undefined''"
| "typeof (Some JNull) = ''object''"
| "typeof (Some (JBool b)) = ''boolean''"
| "typeof (Some (JNum n)) = ''number''"
| "typeof (Some JNonFinite) = ''number''"
| "typeof (Some (JStr s)) = ''string''"
| "typeof (Some (JArr xs)) = ''object''"
| "typeof (Some (JObj kvs)) = ''object''"

fun isArray :: "json option \<Rightarrow> bool" where
  "isArray (Some (JArr xs)) = True"
| "isArray v = False"

text \<open>
  An object is the list of its properties in the order they were written; a key
  written twice has its last value, as in \<^verbatim>\<open>JSON.parse\<close>.
\<close>

definition lookup :: "(string \<times> json) list \<Rightarrow> string \<Rightarrow> json option" where
  "lookup kvs k = map_of (rev kvs) k"

text \<open>
  \<open>get v k\<close> is the property read \<^verbatim>\<open>v.k\<close> on a value that is not \<^verbatim>\<open>null\<close>, for the
  property names this program reads (\<^verbatim>\<open>id\<close>, \<^verbatim>\<open>items\<close>, \<^verbatim>\<open>lastUpdated\<close>, \<^verbatim>\<open>name\<close>, ...:
  none of them is \<^verbatim>\<open>length\<close>, an index or a name found on a prototype). \<open>read_prop\<close> is
  the same read where nothing has excluded \<^verbatim>\<open>null\<close>: it throws there.
\<close>

fun get :: "json \<Rightarrow> string \<Rightarrow> json option" where
  "get (JObj kvs) k = lookup kvs k"
| "get v k = None"

fun read_prop :: "json \<Rightarrow> string \<Rightarrow> error + json option" where
  "read_prop JNull k = Inl TypeError"
| "read_prop v k = Inr (get v k)"

section \<open>The structural checks\<close>

text \<open>
  \<^verbatim>\<open>isValidNavigationData\<close> is declared twice, in \<^verbatim>\<open>DataLoader\<close> (dataLoader.ts, lines
  63-70) and in \<^verbatim>\<open>DataWriter\<close> (dataWriter.ts, lines 278-285), with the same body.
  \<^verbatim>\<open>isValidItem\<close> is \<^verbatim>\<open>DataWriter.isValidItem\<close> (lines 290-303). The conjuncts keep the order
  of the source, so that a property is read only after \<^verbatim>\<open>null\<close> has been excluded.
\<close>

definition isValidNavigationData :: "json \<Rightarrow> bool" where
  "isValidNavigationData data \<longleftrightarrow>
     typeof (Some data) = ''object'' \<and>
     data \<noteq> JNull \<and>
     isArray (get data ''items'') \<and>
     typeof (get data ''lastUpdated'') = ''string''"

fun every_string :: "json option \<Rightarrow> bool" where
  "every_string (Some (JArr cats)) = list_all (\<lambda>cat. typeof (Some cat) = ''string'') cats"
| "every_string v = False"

definition isValidItem :: "json \<Rightarrow> bool" where
  "isValidItem item \<longleftrightarrow>
     typeof (Some item) = ''object'' \<and>
     item \<noteq> JNull \<and>
     typeof (get item ''id'') = ''string'' \<and>
     typeof (get item ''name'') = ''string'' \<and>
     typeof (get item ''website'') = ''string'' \<and>
     typeof (get item ''description'') = ''string'' \<and>
     isArray (get item ''category'') \<and>
     every_string (get item ''category'') \<and>
     typeof (get item ''isOpenSource'') = ''boolean'' \<and>
     typeof (get item ''lastUpdated'') = ''string''"

section \<open>The browser: local storage, the bundled dataset, files\<close>

text \<open>
  The overlay is the one slot \<^verbatim>\<open>navigation_data\<close> of \<^verbatim>\<open>localStorage\<close>. \<^verbatim>\<open>setItem\<close>
  replaces the slot or throws and leaves it as it was; the model lets it throw when the
  text is longer than the \<open>quota\<close>.

  \<^verbatim>\<open>JSON.parse\<close> and \<^verbatim>\<open>JSON.stringify\<close> belong to the platform, not to the repository:
  every function that calls them takes them as the parameters \<open>parse\<close> (\<open>None\<close> when
  \<^verbatim>\<open>JSON.parse\<close> throws) and \<open>stringify\<close>. So do \<^verbatim>\<open>String.prototype.toLowerCase\<close> and
  \<^verbatim>\<open>String.prototype.toUpperCase\<close>, the parameters \<open>lower\<close> and \<open>upper\<close>: they follow the
  case mappings of Unicode, which map a string to a string and may change its length
  (the upper case of U+00DF is \<^verbatim>\<open>SS\<close>).
\<close>

record storage =
  slot :: "jstring option"
  quota :: nat

definition setItem :: "jstring \<Rightarrow> storage \<Rightarrow> error + storage" where
  "setItem v st = (if length v \<le> quota st then Inr (st\<lparr>slot := Some v\<rparr>) else Inl QuotaExceeded)"

text \<open>What \<^verbatim>\<open>fetch('/data/navigation.json')\<close> resolves to.\<close>

datatype response =
    Rejected
  | Response bool nat string jstring  \<comment> \<open>\<^verbatim>\<open>ok\<close>, \<^verbatim>\<open>status\<close>, \<^verbatim>\<open>statusText\<close>, the body\<close>

text \<open>What the \<^verbatim>\<open>FileReader\<close> makes of an uploaded file.\<close>

datatype upload = Unreadable | FileText jstring

section \<open>Reading: DataLoader and DataWriter\<close>

text \<open>\<^verbatim>\<open>DataWriter.saveToLocalStorage\<close> (dataWriter.ts, lines 12-20): the error is thrown on.\<close>

definition saveToLocalStorage :: "(json \<Rightarrow> jstring) \<Rightarrow> json \<Rightarrow> storage \<Rightarrow> error + storage" where
  "saveToLocalStorage stringify data st = setItem (stringify data) st"

text \<open>
  \<^verbatim>\<open>DataWriter.loadFromLocalStorage\<close> (dataWriter.ts, lines 25-39). \<^verbatim>\<open>if (data)\<close> is false
  for a missing slot and for the empty string; a \<^verbatim>\<open>JSON.parse\<close> that throws is caught
  and gives \<^verbatim>\<open>null\<close>.
\<close>

definition loadFromLocalStorage :: "(jstring \<Rightarrow> json option) \<Rightarrow> storage \<Rightarrow> json option" where
  "loadFromLocalStorage parse st =
     (case slot st of
        None \<Rightarrow> None
      | Some data \<Rightarrow>
          if data = [] then None
          else (case parse data of
                  None \<Rightarrow> None
                | Some parsedData \<Rightarrow>
                    if isValidNavigationData parsedData then Some parsedData else None))"

text \<open>
  \<^verbatim>\<open>DataLoader.loadNavigationData\<close> (dataLoader.ts, lines 15-50) in its two halves: the
  bundled dataset (lines 31-49), and before it the local overlay (lines 17-28).
\<close>

definition fetchNavigationData :: "(jstring \<Rightarrow> json option) \<Rightarrow> response \<Rightarrow> error + json" where
  "fetchNavigationData parse r =
     (case r of
        Rejected \<Rightarrow> Inl NetworkError
      | Response ok status statusText body \<Rightarrow>
          if \<not> ok then Inl (FetchFailed status statusText)
          else (case parse body of
                  None \<Rightarrow> Inl SyntaxError
                | Some data \<Rightarrow>
                    if \<not> isValidNavigationData data then Inl InvalidStructure
                    else Inr data))"

definition loadNavigationData ::
  "(jstring \<Rightarrow> json option) \<Rightarrow> response \<Rightarrow> storage \<Rightarrow> error + json" where
  "loadNavigationData parse r st =
     (case (case slot st of
              None \<Rightarrow> None
            | Some localData \<Rightarrow>
                if localData = [] then None
                else (case parse localData of
                        None \<Rightarrow> None
                      | Some parsedData \<Rightarrow>
                          if isValidNavigationData parsedData then Some parsedData else None)) of
        Some parsedData \<Rightarrow> Inr parsedData
      | None \<Rightarrow> fetchNavigationData parse r)"

text \<open>
  \<^verbatim>\<open>DataWriter.loadData\<close> (dataWriter.ts, lines 44-62): the overlay, else \<^verbatim>\<open>DataLoader.loadNavigationData\<close> (which
  looks at the overlay once more), else an empty collection stamped \<open>now\<close>, the
  \<^verbatim>\<open>new Date().toISOString()\<close> of that moment.
\<close>

definition loadData ::
  "(jstring \<Rightarrow> json option) \<Rightarrow> response \<Rightarrow> storage \<Rightarrow> jstring \<Rightarrow> json" where
  "loadData parse r st now =
     (case loadFromLocalStorage parse st of
        Some localData \<Rightarrow> localData
      | None \<Rightarrow>
          (case loadNavigationData parse r st of
             Inr data \<Rightarrow> data
           | Inl e \<Rightarrow> JObj [(''items'', JArr []), (''lastUpdated'', JStr now)]))"

section \<open>Export and import\<close>


definition uploadFromJsonFile :: "(jstring \<Rightarrow> json option) \<Rightarrow> upload \<Rightarrow> error + json" where
  "uploadFromJsonFile parse f =
     (case f of
        Unreadable \<Rightarrow> Inl UploadReadError
      | FileText text \<Rightarrow>
          (case parse text of
             None \<Rightarrow> Inl UploadParseError
           | Some data \<Rightarrow>
               if isValidNavigationData data then Inr data else Inl InvalidUpload))"

section \<open>Strings and numbers of the platform\<close>

definition digits36 :: string where
  "digits36 = ''0123456789abcdefghijklmnopqrstuvwxyz''"

text \<open>
  The class \<^verbatim>\<open>\s\<close> of a regular expression: the white space and the line terminators
  of the language, which are tab, line feed, vertical tab, form feed, carriage return,
  space, no-break space, U+1680, U+2000 to U+200A, the line and paragraph separators
  U+2028 and U+2029, U+202F, U+205F, U+3000 and the byte order mark U+FEFF.
\<close>

definition is_space :: "code_unit \<Rightarrow> bool" where
  "is_space c \<longleftrightarrow>
     c \<in> set [0x0009, 0x000A, 0x000B, 0x000C, 0x000D, 0x0020, 0x00A0, 0x1680,
              0x2000, 0x2001, 0x2002, 0x2003, 0x2004, 0x2005, 0x2006, 0x2007, 0x2008,
              0x2009, 0x200A, 0x2028, 0x2029, 0x202F, 0x205F, 0x3000, 0xFEFF]"

text \<open>
  \<^verbatim>\<open>Number.prototype.toString(radix)\<close> on a natural number. The program calls it with
  radix 36 and 16; a radix outside 2..36 is a \<^verbatim>\<open>RangeError\<close> in JavaScript and gives the
  empty string here.
\<close>

function toString_radix :: "nat \<Rightarrow> nat \<Rightarrow> string" where
  "toString_radix radix n =
     (if radix < 2 \<or> 36 < radix then []
      else if n < radix then [digits36 ! n]
      else toString_radix radix (n div radix) @ [digits36 ! (n mod radix)])"
  by pat_completeness auto
termination
  by (relation "measure snd") auto

declare toString_radix.simps [simp del]

text \<open>\<^verbatim>\<open>s.replace(/\s+/g, '-')\<close>: every maximal run of whitespace becomes one hyphen.\<close>

function replace_space_runs :: "jstring \<Rightarrow> jstring" where
  "replace_space_runs [] = []"
| "replace_space_runs (c # cs) =
     (if is_space c then 0x002D # replace_space_runs (dropWhile is_space cs)
      else c # replace_space_runs cs)"
  by pat_completeness auto
termination
  by (relation "measure length") (auto simp: less_Suc_eq_le length_dropWhile_le)

text \<open>
  \<^verbatim>\<open>s.replace(/[^a-z0-9-]/g, '')\<close>: what stays is a code unit from \<^verbatim>\<open>a\<close> (0x61) to
  \<^verbatim>\<open>z\<close> (0x7A), from \<^verbatim>\<open>0\<close> (0x30) to \<^verbatim>\<open>9\<close> (0x39), or the hyphen (0x2D).
\<close>

definition strip_other :: "jstring \<Rightarrow> jstring" where
  "strip_other s =
     filter (\<lambda>c. (0x0061 \<le> c \<and> c \<le> 0x007A) \<or> (0x0030 \<le> c \<and> c \<le> 0x0039) \<or> c = 0x002D) s"

text \<open>\<^verbatim>\<open>s.split(' ')\<close>: the pieces between single spaces, empty pieces included.\<close>

fun split_space :: "jstring \<Rightarrow> jstring list" where
  "split_space [] = [[]]"
| "split_space (c # cs) =
     (if c = 0x0020 then [] # split_space cs
      else (case split_space cs of
              [] \<Rightarrow> [[c]]
            | w # ws \<Rightarrow> (c # w) # ws))"

section \<open>Identifier and logo\<close>

text \<open>
  \<^verbatim>\<open>generateId\<close> (dataWriter.ts, lines 118-120); \<open>lower\<close> is the platform's
  \<^verbatim>\<open>toLowerCase\<close> and \<open>now\<close> is \<^verbatim>\<open>Date.now()\<close>, the milliseconds since the epoch.
\<close>

definition generateId :: "(jstring \<Rightarrow> jstring) \<Rightarrow> jstring \<Rightarrow> nat \<Rightarrow> jstring" where
  "generateId lower name now =
     strip_other (replace_space_runs (lower name)) @ utf16 ''-'' @ utf16 (toString_radix 36 now)"

text \<open>
  \<^verbatim>\<open>stringToColor\<close> (dataWriter.ts, lines 125-136): the hash over the code units
  (\<^verbatim>\<open>charCodeAt\<close>), then three bytes of it, lowest first, each as two hexadecimal digits.
  \<^verbatim>\<open>hash\<close> is a JavaScript number; \<^verbatim>\<open>hash << 5\<close> and \<^verbatim>\<open>hash >> k\<close> first convert it
  to a signed 32-bit integer. (The numbers stay exact integers for every name shorter
  than some millions of characters.)
\<close>

definition hash_step :: "int \<Rightarrow> code_unit \<Rightarrow> int" where
  "hash_step hash c = uint c + (sint (push_bit 5 (word_of_int hash :: 32 word)) - hash)"

definition color_byte :: "int \<Rightarrow> nat \<Rightarrow> string" where
  "color_byte hash i =
     (let v = unat (signed_drop_bit (i * 8) (word_of_int hash :: 32 word) AND 0xFF);
          padded = ''00'' @ toString_radix 16 v
      in drop (length padded - 2) padded)"

definition stringToColor :: "jstring \<Rightarrow> jstring" where
  "stringToColor str =
     (let hash = foldl hash_step 0 str
      in utf16 (foldl (\<lambda>color i. color @ color_byte hash i) ''#'' [0 ..< 3]))"

text \<open>
  \<^verbatim>\<open>getInitials\<close> (dataWriter.ts, lines 141-143) and \<^verbatim>\<open>generateDefaultLogo\<close> (lines
  148-153). \<^verbatim>\<open>n[0]\<close> is the first code unit of a piece; of an empty piece it is
  \<^verbatim>\<open>undefined\<close>, which \<^verbatim>\<open>join('')\<close> writes as the empty string. \<open>upper\<close> is the platform's
  \<^verbatim>\<open>toUpperCase\<close>, applied to the joined string, and \<^verbatim>\<open>slice(0, 2)\<close> cuts its result.
\<close>

definition first_char :: "jstring \<Rightarrow> jstring option" where
  "first_char n = (case n of [] \<Rightarrow> None | c # cs \<Rightarrow> Some [c])"

definition join_empty :: "jstring option list \<Rightarrow> jstring" where
  "join_empty parts = concat (map (\<lambda>p. case p of None \<Rightarrow> [] | Some s \<Rightarrow> s) parts)"

definition getInitials :: "(jstring \<Rightarrow> jstring) \<Rightarrow> jstring \<Rightarrow> jstring" where
  "getInitials upper name = take 2 (upper (join_empty (map first_char (split_space name))))"

definition generateDefaultLogo :: "(jstring \<Rightarrow> jstring) \<Rightarrow> jstring \<Rightarrow> json" where
  "generateDefaultLogo upper name =
     JObj [(''bgColor'', JStr (stringToColor name)), (''text'', JStr (getInitials upper name))]"

section \<open>Arrays and objects of the platform\<close>

text \<open>
  \<^verbatim>\<open>some\<close>, \<^verbatim>\<open>findIndex\<close> and \<^verbatim>\<open>filter\<close> with a callback that may throw. \<^verbatim>\<open>some\<close> and
  \<^verbatim>\<open>findIndex\<close> stop at the first hit; \<open>None\<close> is the index \<^verbatim>\<open>-1\<close>.
\<close>

fun js_some :: "('a \<Rightarrow> error + bool) \<Rightarrow> 'a list \<Rightarrow> error + bool" where
  "js_some p [] = Inr False"
| "js_some p (x # xs) =
     (case p x of
        Inl e \<Rightarrow> Inl e
      | Inr b \<Rightarrow> if b then Inr True else js_some p xs)"

fun js_findIndex :: "('a \<Rightarrow> error + bool) \<Rightarrow> 'a list \<Rightarrow> error + nat option" where
  "js_findIndex p [] = Inr None"
| "js_findIndex p (x # xs) =
     (case p x of
        Inl e \<Rightarrow> Inl e
      | Inr b \<Rightarrow>
          if b then Inr (Some 0)
          else (case js_findIndex p xs of
                  Inl e \<Rightarrow> Inl e
                | Inr i \<Rightarrow> Inr (map_option Suc i)))"

fun js_filter :: "('a \<Rightarrow> error + bool) \<Rightarrow> 'a list \<Rightarrow> error + 'a list" where
  "js_filter p [] = Inr []"
| "js_filter p (x # xs) =
     (case p x of
        Inl e \<Rightarrow> Inl e
      | Inr b \<Rightarrow>
          (case js_filter p xs of
             Inl e \<Rightarrow> Inl e
           | Inr ys \<Rightarrow> Inr (if b then x # ys else ys)))"

text \<open>The callbacks \<^verbatim>\<open>item => item.id === itemId\<close> and \<^verbatim>\<open>item => item.id !== itemId\<close>.\<close>

definition id_is :: "jstring \<Rightarrow> json \<Rightarrow> error + bool" where
  "id_is itemId item =
     (case read_prop item ''id'' of
        Inl e \<Rightarrow> Inl e
      | Inr v \<Rightarrow> Inr (v = Some (JStr itemId)))"

definition id_is_not :: "jstring \<Rightarrow> json \<Rightarrow> error + bool" where
  "id_is_not itemId item =
     (case read_prop item ''id'' of
        Inl e \<Rightarrow> Inl e
      | Inr v \<Rightarrow> Inr (v \<noteq> Some (JStr itemId)))"

text \<open>\<^verbatim>\<open>currentData.items\<close> used as an array.\<close>

definition items_of :: "json \<Rightarrow> error + json list" where
  "items_of data =
     (case read_prop data ''items'' of
        Inl e \<Rightarrow> Inl e
      | Inr v \<Rightarrow> (case v of Some (JArr xs) \<Rightarrow> Inr xs | _ \<Rightarrow> Inl TypeError))"

text \<open>
  Object spread: \<^verbatim>\<open>{...a, ...b, k: v}\<close> starts from the empty object and assigns the own
  properties of \<^verbatim>\<open>a\<close>, then those of \<^verbatim>\<open>b\<close>, then \<^verbatim>\<open>k\<close>. An assignment to a key that
  is there keeps its place; a new key goes last.
\<close>

fun own_props :: "json \<Rightarrow> (string \<times> json) list" where
  "own_props (JObj kvs) = kvs"
| "own_props (JArr xs) = zip (map (toString_radix 10) [0 ..< length xs]) xs"
| "own_props (JStr s) = zip (map (toString_radix 10) [0 ..< length s]) (map (\<lambda>c. JStr [c]) s)"
| "own_props v = []"

definition assign :: "(string \<times> json) list \<Rightarrow> (string \<times> json) list \<Rightarrow> (string \<times> json) list" where
  "assign target source = foldl (\<lambda>t (k, v). AList.update k v t) target source"

section \<open>The mutations of DataWriter\<close>

text \<open>
  \<^verbatim>\<open>addItem\<close> (dataWriter.ts, lines 158-197), \<^verbatim>\<open>updateItem\<close> (lines 202-240) and
  \<^verbatim>\<open>deleteItem\<close> (lines 245-273).
  Each mutation takes the platform (\<open>parse\<close>, \<open>stringify\<close>, and for \<^verbatim>\<open>addItem\<close> \<open>lower\<close>
  and \<open>upper\<close>), what the fetch of the
  bundled dataset would answer, the storage, and the clock readings in the order the
  source takes them: \<open>t_load\<close> for the empty collection of \<^verbatim>\<open>loadData\<close>, \<open>now_ms\<close> for
  \<^verbatim>\<open>Date.now()\<close>, \<open>t_item\<close> for the item's \<^verbatim>\<open>new Date().toISOString()\<close> and \<open>t_data\<close> for the
  collection's. The input of a mutation is an object, given by its properties. A
  mutation returns the new \<^verbatim>\<open>items\<close> and the storage after the write; when it throws,
  the storage is as before, since the write is its last step.
\<close>

text \<open>
  The three object literals of the mutations:
  \<^verbatim>\<open>{...itemData, id, logo, lastUpdated: new Date().toISOString()}\<close>,
  \<^verbatim>\<open>{...existingItem, ...updatedItemData, lastUpdated: new Date().toISOString()}\<close> and
  \<^verbatim>\<open>{...currentData, items: ..., lastUpdated: new Date().toISOString()}\<close>.
\<close>

definition newItem_of :: "(string \<times> json) list \<Rightarrow> jstring \<Rightarrow> json \<Rightarrow> jstring \<Rightarrow> json" where
  "newItem_of itemData newId logo now =
     JObj (AList.update ''lastUpdated'' (JStr now)
            (AList.update ''logo'' logo
              (AList.update ''id'' (JStr newId)
                (assign [] itemData))))"

definition updatedItem_of :: "json \<Rightarrow> (string \<times> json) list \<Rightarrow> jstring \<Rightarrow> json" where
  "updatedItem_of existingItem updatedItemData now =
     JObj (AList.update ''lastUpdated'' (JStr now)
            (assign (assign [] (own_props existingItem)) updatedItemData))"

definition updatedData_of :: "json \<Rightarrow> json list \<Rightarrow> jstring \<Rightarrow> json" where
  "updatedData_of currentData updatedItems now =
     JObj (AList.update ''lastUpdated'' (JStr now)
            (AList.update ''items'' (JArr updatedItems)
              (assign [] (own_props currentData))))"

definition addItem ::
  "(jstring \<Rightarrow> json option) \<Rightarrow> (json \<Rightarrow> jstring) \<Rightarrow> (jstring \<Rightarrow> jstring) \<Rightarrow> (jstring \<Rightarrow> jstring) \<Rightarrow>
   response \<Rightarrow> storage \<Rightarrow> jstring \<Rightarrow> nat \<Rightarrow> jstring \<Rightarrow> jstring \<Rightarrow> (string \<times> json) list \<Rightarrow>
   error + json list \<times> storage" where
  "addItem parse stringify lower upper r st t_load now_ms t_item t_data itemData =
     (let currentData = loadData parse r st t_load in
      case lookup itemData ''name'' of
        Some (JStr name) \<Rightarrow>
          (let id = generateId lower name now_ms;
               logo = generateDefaultLogo upper name;
               newItem = newItem_of itemData id logo t_item
           in case items_of currentData of
                Inl e \<Rightarrow> Inl e
              | Inr items \<Rightarrow>
                  (case js_some (id_is id) items of
                     Inl e \<Rightarrow> Inl e
                   | Inr exists \<Rightarrow>
                       if exists then Inl (AlreadyExists id)
                       else (let updatedData = updatedData_of currentData (items @ [newItem]) t_data
                             in case saveToLocalStorage stringify updatedData st of
                                  Inl e \<Rightarrow> Inl e
                                | Inr st' \<Rightarrow> Inr (items @ [newItem], st'))))
      | _ \<Rightarrow> Inl TypeError)"

definition updateItem ::
  "(jstring \<Rightarrow> json option) \<Rightarrow> (json \<Rightarrow> jstring) \<Rightarrow> response \<Rightarrow> storage \<Rightarrow>
   jstring \<Rightarrow> jstring \<Rightarrow> jstring \<Rightarrow> jstring \<Rightarrow> (string \<times> json) list \<Rightarrow> error + json list \<times> storage" where
  "updateItem parse stringify r st t_load t_item t_data itemId updatedItemData =
     (let currentData = loadData parse r st t_load in
      case items_of currentData of
        Inl e \<Rightarrow> Inl e
      | Inr items \<Rightarrow>
          (case js_findIndex (id_is itemId) items of
             Inl e \<Rightarrow> Inl e
           | Inr None \<Rightarrow> Inl (NotFound itemId)
           | Inr (Some itemIndex) \<Rightarrow>
               (let existingItem = items ! itemIndex;
                    updatedItem = updatedItem_of existingItem updatedItemData t_item;
                    updatedItems = items[itemIndex := updatedItem];
                    updatedData = updatedData_of currentData updatedItems t_data
                in case saveToLocalStorage stringify updatedData st of
                     Inl e \<Rightarrow> Inl e
                   | Inr st' \<Rightarrow> Inr (updatedItems, st'))))"

definition deleteItem ::
  "(jstring \<Rightarrow> json option) \<Rightarrow> (json \<Rightarrow> jstring) \<Rightarrow> response \<Rightarrow> storage \<Rightarrow>
   jstring \<Rightarrow> jstring \<Rightarrow> jstring \<Rightarrow> error + json list \<times> storage" where
  "deleteItem parse stringify r st t_load t_data itemId =
     (let currentData = loadData parse r st t_load in
      case items_of currentData of
        Inl e \<Rightarrow> Inl e
      | Inr items \<Rightarrow>
          (case js_filter (id_is_not itemId) items of
             Inl e \<Rightarrow> Inl e
           | Inr updatedItems \<Rightarrow>
               if length updatedItems = length items then Inl (NotFound itemId)
               else (let updatedData = updatedData_of currentData updatedItems t_data
                     in case saveToLocalStorage stringify updatedData st of
                          Inl e \<Rightarrow> Inl e
                        | Inr st' \<Rightarrow> Inr (updatedItems, st'))))"

section \<open>The import handler of the admin page\<close>

text \<open>
  \<^verbatim>\<open>handleImportData\<close> (AdminPage.tsx, lines 151-166).
  The page keeps the list it shows in the React state \<^verbatim>\<open>items\<close>. \<^verbatim>\<open>handleImportData\<close>
  does nothing without a chosen file; on a resolved upload it calls
  \<^verbatim>\<open>setItems(data.items)\<close>, on a rejected one it only alerts.
\<close>

record admin =
  store :: storage
  shown :: "json list"

definition handleImportData :: "(jstring \<Rightarrow> json option) \<Rightarrow> upload option \<Rightarrow> admin \<Rightarrow> admin" where
  "handleImportData parse chosen page =
     (case chosen of
        None \<Rightarrow> page
      | Some f \<Rightarrow>
          (case uploadFromJsonFile parse f of
             Inl e \<Rightarrow> page
           | Inr data \<Rightarrow>
               (case items_of data of
                  Inl e \<Rightarrow> page
                | Inr xs \<Rightarrow> page\<lparr>shown := xs\<rparr>)))"

section \<open>The specification's notions\<close>

text \<open>
  Following the specification: the local overlay, when it is present and passes the
  collection-level structural check.
\<close>

definition spec_overlay :: "(jstring \<Rightarrow> json option) \<Rightarrow> storage \<Rightarrow> json option" where
  "spec_overlay parse st =
     (case slot st of
        None \<Rightarrow> None
      | Some text \<Rightarrow>
          (case parse text of
             None \<Rightarrow> None
           | Some d \<Rightarrow> if isValidNavigationData d then Some d else None))"

text \<open>Following the specification: the empty collection with a fresh timestamp.\<close>

definition spec_empty_collection :: "jstring \<Rightarrow> json" where
  "spec_empty_collection now = JObj [(''items'', JArr []), (''lastUpdated'', JStr now)]"

text \<open>The failures of loading: the ones \<^verbatim>\<open>DataLoader.loadNavigationData\<close> can throw.\<close>

definition is_load_error :: "error \<Rightarrow> bool" where
  "is_load_error e =
     (case e of
        NetworkError \<Rightarrow> True
      | SyntaxError \<Rightarrow> True
      | FetchFailed code msg \<Rightarrow> True
      | InvalidStructure \<Rightarrow> True
      | _ \<Rightarrow> False)"

text \<open>
  Following the specification: each run of whitespace is replaced by a single hyphen
  (a whitespace character followed by whitespace disappears, the last one of a run
  becomes the hyphen), and the slug of a name is the name lower-cased, its runs of
  whitespace replaced, with every character other than a lowercase letter, a digit or a
  hyphen stripped. Whitespace is what the language calls white space and line
  terminators: the controls U+0009 to U+000D, the space, the no-break space, the spaces
  U+1680, U+2000 to U+200A, U+202F, U+205F and U+3000, the separators U+2028 and U+2029,
  and U+FEFF. The lowercase letters are \<^verbatim>\<open>a\<close> to \<^verbatim>\<open>z\<close> and the digits \<^verbatim>\<open>0\<close> to \<^verbatim>\<open>9\<close>.
  Lower-casing is the platform's.
\<close>

definition spec_whitespace :: "code_unit \<Rightarrow> bool" where
  "spec_whitespace c \<longleftrightarrow>
     (0x0009 \<le> c \<and> c \<le> 0x000D) \<or> c = 0x0020 \<or> c = 0x00A0 \<or> c = 0x1680 \<or>
     (0x2000 \<le> c \<and> c \<le> 0x200A) \<or> c = 0x2028 \<or> c = 0x2029 \<or> c = 0x202F \<or>
     c = 0x205F \<or> c = 0x3000 \<or> c = 0xFEFF"

fun spec_hyphenate :: "jstring \<Rightarrow> jstring" where
  "spec_hyphenate [] = []"
| "spec_hyphenate [c] = (if spec_whitespace c then utf16 ''-'' else [c])"
| "spec_hyphenate (c # d # cs) =
     (if spec_whitespace c then
        (if spec_whitespace d then spec_hyphenate (d # cs)
         else utf16 ''-'' @ spec_hyphenate (d # cs))
      else c # spec_hyphenate (d # cs))"

definition spec_id_char :: "code_unit \<Rightarrow> bool" where
  "spec_id_char c \<longleftrightarrow>
     c \<in> set (utf16 ''abcdefghijklmnopqrstuvwxyz'') \<or> c \<in> set (utf16 ''0123456789'') \<or>
     c \<in> set (utf16 ''-'')"

definition spec_slug :: "(jstring \<Rightarrow> jstring) \<Rightarrow> jstring \<Rightarrow> jstring" where
  "spec_slug lower name = filter spec_id_char (spec_hyphenate (lower name))"

text \<open>
  Following the specification: the number a string of base-36 digits encodes.
\<close>

definition spec_digit_value :: "char \<Rightarrow> nat" where
  "spec_digit_value c = length (takeWhile (\<lambda>d. d \<noteq> c) digits36)"

definition spec_base36_value :: "string \<Rightarrow> nat" where
  "spec_base36_value s = foldl (\<lambda>acc c. acc * 36 + spec_digit_value c) 0 s"





section \<open>Data of the examples\<close>

text \<open>
  In the examples the platform's \<^verbatim>\<open>JSON.parse\<close> is given by what it returns on the
  finitely many texts at hand (it throws on every other text, the empty one among
  them), and \<^verbatim>\<open>JSON.stringify\<close> by the texts it writes for the documents at hand. Each
  text \<open>text_...\<close> below is the one \<^verbatim>\<open>JSON.stringify\<close> writes for its document, and each
  text \<open>pretty_...\<close> the one \<^verbatim>\<open>JSON.stringify\<close> writes with an indentation of two spaces;
  the one text written by hand is \<open>text_rated\<close>.
\<close>

definition table_parse :: "(jstring \<times> json) list \<Rightarrow> jstring \<Rightarrow> json option" where
  "table_parse known text = map_of known text"

definition table_stringify :: "(json \<times> jstring) list \<Rightarrow> json \<Rightarrow> jstring" where
  "table_stringify known d = (case map_of known d of Some text \<Rightarrow> text | None \<Rightarrow> utf16 ''null'')"

definition item_seed :: json where
  "item_seed = JObj [(''id'', JStr (utf16 ''seed-1'')), (''name'', JStr (utf16 ''Seed''))]"

definition item_mine :: json where
  "item_mine = JObj [(''id'', JStr (utf16 ''mine-2'')), (''name'', JStr (utf16 ''Mine''))]"

definition item_alpha :: json where
  "item_alpha = JObj [(''id'', JStr (utf16 ''alpha-1'')), (''name'', JStr (utf16 ''Alpha''))]"

definition item_beta :: json where
  "item_beta = JObj [(''id'', JStr (utf16 ''beta-2'')), (''name'', JStr (utf16 ''Beta''))]"

definition item_twin_first :: json where
  "item_twin_first = JObj [(''id'', JStr (utf16 ''twin-1'')), (''name'', JStr (utf16 ''First''))]"

definition item_twin_second :: json where
  "item_twin_second = JObj [(''id'', JStr (utf16 ''twin-1'')), (''name'', JStr (utf16 ''Second''))]"

definition item_untyped :: json where
  "item_untyped = JObj [(''id'', JNum 7)]"

definition doc_seed :: json where
  "doc_seed = JObj [(''items'', JArr [item_seed]),
                    (''lastUpdated'', JStr (utf16 ''2025-01-01T00:00:00.000Z''))]"

definition text_seed :: jstring where
  \<open>text_seed = utf16 ''{"items":[{"id":"seed-1","name":"Seed"}],"lastUpdated":"2025-01-01T00:00:00.000Z"}''\<close>

definition pretty_seed :: jstring where
  \<open>pretty_seed = utf16 ''{\<newline>  "items": [\<newline>    {\<newline>      "id": "seed-1",\<newline>      "name": "Seed"\<newline>    }\<newline>  ],\<newline>  "lastUpdated": "2025-01-01T00:00:00.000Z"\<newline>}''\<close>

definition doc_local :: json where
  "doc_local = JObj [(''items'', JArr [item_mine]),
                     (''lastUpdated'', JStr (utf16 ''2026-02-02T00:00:00.000Z''))]"

definition text_local :: jstring where
  \<open>text_local = utf16 ''{"items":[{"id":"mine-2","name":"Mine"}],"lastUpdated":"2026-02-02T00:00:00.000Z"}''\<close>

definition doc_no_items :: json where
  "doc_no_items = JObj [(''items'', JStr (utf16 ''not-an-array'')), (''lastUpdated'', JStr (utf16 ''x''))]"

definition text_no_items :: jstring where
  \<open>text_no_items = utf16 ''{"items":"not-an-array","lastUpdated":"x"}''\<close>

definition doc_two :: json where
  "doc_two = JObj [(''items'', JArr [item_alpha, item_beta]),
                   (''lastUpdated'', JStr (utf16 ''2026-02-02T00:00:00.000Z''))]"

definition text_two :: jstring where
  \<open>text_two = utf16 ''{"items":[{"id":"alpha-1","name":"Alpha"},{"id":"beta-2","name":"Beta"}],"lastUpdated":"2026-02-02T00:00:00.000Z"}''\<close>

definition doc_beta :: json where
  "doc_beta = JObj [(''items'', JArr [item_beta]),
                    (''lastUpdated'', JStr (utf16 ''2026-11-02T10:00:00.000Z''))]"

definition text_beta :: jstring where
  \<open>text_beta = utf16 ''{"items":[{"id":"beta-2","name":"Beta"}],"lastUpdated":"2026-11-02T10:00:00.000Z"}''\<close>

definition doc_twins :: json where
  "doc_twins = JObj [(''items'', JArr [item_twin_first, item_beta, item_twin_second]),
                     (''lastUpdated'', JStr (utf16 ''2026-02-02T00:00:00.000Z''))]"

definition text_twins :: jstring where
  \<open>text_twins = utf16 ''{"items":[{"id":"twin-1","name":"First"},{"id":"beta-2","name":"Beta"},{"id":"twin-1","name":"Second"}],"lastUpdated":"2026-02-02T00:00:00.000Z"}''\<close>

definition doc_untyped :: json where
  "doc_untyped = JObj [(''items'', JArr [item_untyped, item_beta]),
                       (''lastUpdated'', JStr (utf16 ''2026-02-02T00:00:00.000Z''))]"

definition text_untyped :: jstring where
  \<open>text_untyped = utf16 ''{"items":[{"id":7},{"id":"beta-2","name":"Beta"}],"lastUpdated":"2026-02-02T00:00:00.000Z"}''\<close>

definition doc_untyped_left :: json where
  "doc_untyped_left = JObj [(''items'', JArr [item_untyped]),
                            (''lastUpdated'', JStr (utf16 ''2026-11-02T10:00:00.000Z''))]"

definition text_untyped_left :: jstring where
  \<open>text_untyped_left = utf16 ''{"items":[{"id":7}],"lastUpdated":"2026-11-02T10:00:00.000Z"}''\<close>

text \<open>The record of the specification's scenario, and the collection after its creation.\<close>

definition input_echo :: "(string \<times> json) list" where
  "input_echo =
     [(''name'', JStr (utf16 ''Echo'')), (''website'', JStr (utf16 ''https://echo.ai'')),
      (''description'', JStr (utf16 ''desc'')), (''category'', JArr [JStr (utf16 ''chatbots'')]),
      (''isOpenSource'', JBool True)]"

definition item_echo :: json where
  "item_echo =
     JObj [(''name'', JStr (utf16 ''Echo'')), (''website'', JStr (utf16 ''https://echo.ai'')),
           (''description'', JStr (utf16 ''desc'')), (''category'', JArr [JStr (utf16 ''chatbots'')]),
           (''isOpenSource'', JBool True), (''id'', JStr (utf16 ''echo-mvz38740'')),
           (''logo'', JObj [(''bgColor'', JStr (utf16 ''#45de20'')), (''text'', JStr (utf16 ''E''))]),
           (''lastUpdated'', JStr (utf16 ''2026-11-02T10:00:00.000Z''))]"

definition doc_echo :: json where
  "doc_echo = JObj [(''items'', JArr [item_echo]),
                    (''lastUpdated'', JStr (utf16 ''2026-11-02T10:00:00.001Z''))]"

definition text_echo :: jstring where
  \<open>text_echo = utf16 ''{"items":[{"name":"Echo","website":"https://echo.ai","description":"desc","category":["chatbots"],"isOpenSource":true,"id":"echo-mvz38740","logo":{"bgColor":"#45de20","text":"E"},"lastUpdated":"2026-11-02T10:00:00.000Z"}],"lastUpdated":"2026-11-02T10:00:00.001Z"}''\<close>


definition item_hub :: json where
  "item_hub =
     JObj [(''name'', JStr (utf16 ''open  agent hub'')), (''website'', JStr (utf16 ''https://hub.example'')),
           (''description'', JStr (utf16 ''first'')), (''category'', JArr [JStr (utf16 ''agents'')]),
           (''isOpenSource'', JBool True), (''id'', JStr (utf16 ''open-agent-hub-mvz38740'')),
           (''logo'', JObj [(''bgColor'', JStr (utf16 ''#d0bc7a'')), (''text'', JStr (utf16 ''OA''))]),
           (''lastUpdated'', JStr (utf16 ''2026-11-02T10:00:00.000Z''))]"

definition doc_hub :: json where
  "doc_hub = JObj [(''items'', JArr [item_hub]),
                   (''lastUpdated'', JStr (utf16 ''2026-11-02T10:00:00.001Z''))]"

definition text_hub :: jstring where
  \<open>text_hub = utf16 ''{"items":[{"name":"open  agent hub","website":"https://hub.example","description":"first","category":["agents"],"isOpenSource":true,"id":"open-agent-hub-mvz38740","logo":{"bgColor":"#d0bc7a","text":"OA"},"lastUpdated":"2026-11-02T10:00:00.000Z"}],"lastUpdated":"2026-11-02T10:00:00.001Z"}''\<close>


definition item_hub_later :: json where
  "item_hub_later =
     JObj [(''name'', JStr (utf16 ''open  agent hub'')), (''website'', JStr (utf16 ''https://hub.example/v2'')),
           (''description'', JStr (utf16 ''second'')), (''category'', JArr [JStr (utf16 ''tools'')]),
           (''isOpenSource'', JBool False), (''id'', JStr (utf16 ''open-agent-hub-mw0io1s0'')),
           (''logo'', JObj [(''bgColor'', JStr (utf16 ''#d0bc7a'')), (''text'', JStr (utf16 ''OA''))]),
           (''lastUpdated'', JStr (utf16 ''2026-11-03T10:00:00.000Z''))]"

definition doc_hub_later :: json where
  "doc_hub_later = JObj [(''items'', JArr [item_mine, item_hub_later]),
                         (''lastUpdated'', JStr (utf16 ''2026-11-03T10:00:00.001Z''))]"

definition text_hub_later :: jstring where
  \<open>text_hub_later = utf16 ''{"items":[{"id":"mine-2","name":"Mine"},{"name":"open  agent hub","website":"https://hub.example/v2","description":"second","category":["tools"],"isOpenSource":false,"id":"open-agent-hub-mw0io1s0","logo":{"bgColor":"#d0bc7a","text":"OA"},"lastUpdated":"2026-11-03T10:00:00.000Z"}],"lastUpdated":"2026-11-03T10:00:00.001Z"}''\<close>

text \<open>
  A name that begins with two spaces, has a tab, a no-break space (U+00A0) and an
  ideographic space (U+3000) between its words, capitals, punctuation, a digit, a hyphen
  and the letter U+00E9, and ends with a space; and its lower case.
\<close>

definition name_spaced :: jstring where
  "name_spaced =
     utf16 ''  My'' @ [0x0009] @ utf16 ''Cool'' @ [0x00A0] @ utf16 ''Agent!!'' @ [0x3000] @
     utf16 ''v2-'' @ [0x00E9] @ utf16 '' ''"

definition name_spaced_lower :: jstring where
  "name_spaced_lower =
     utf16 ''  my'' @ [0x0009] @ utf16 ''cool'' @ [0x00A0] @ utf16 ''agent!!'' @ [0x3000] @
     utf16 ''v2-'' @ [0x00E9] @ utf16 '' ''"

text \<open>
  A name in which a run of all the whitespace of the language stands between \<^verbatim>\<open>x\<close> and
  \<^verbatim>\<open>y\<close>, and the next line control U+0085 and the zero width space U+200B, which are no
  whitespace of the language, between \<^verbatim>\<open>y\<close> and \<^verbatim>\<open>z\<close>.
\<close>

definition name_blank :: jstring where
  "name_blank =
     utf16 ''x'' @
     [0x0009, 0x000A, 0x000B, 0x000C, 0x000D, 0x0020, 0x00A0, 0x1680, 0x2000, 0x2001, 0x2002,
      0x2003, 0x2004, 0x2005, 0x2006, 0x2007, 0x2008, 0x2009, 0x200A, 0x2028, 0x2029, 0x202F,
      0x205F, 0x3000, 0xFEFF] @
     utf16 ''y'' @ [0x0085, 0x200B] @ utf16 ''z''"

text \<open>
  A name of two words whose first letter is U+00DF, the sharp s, whose upper case is the
  two letters \<^verbatim>\<open>SS\<close>; the record created for it on the empty collection, and the text
  of the stored collection, in which U+00DF stands as it is.
\<close>

definition name_sharp :: jstring where
  "name_sharp = [0x00DF] @ utf16 ''a b''"


definition item_sharp :: json where
  "item_sharp =
     JObj [(''name'', JStr name_sharp), (''website'', JStr (utf16 ''https://sharp.example'')),
           (''description'', JStr (utf16 ''desc'')), (''category'', JArr [JStr (utf16 ''tools'')]),
           (''isOpenSource'', JBool True), (''id'', JStr (utf16 ''a-b-mvz38740'')),
           (''logo'', JObj [(''bgColor'', JStr (utf16 ''#24cf66'')), (''text'', JStr (utf16 ''SS''))]),
           (''lastUpdated'', JStr (utf16 ''2026-11-02T10:00:00.000Z''))]"

definition doc_sharp :: json where
  "doc_sharp = JObj [(''items'', JArr [item_sharp]),
                     (''lastUpdated'', JStr (utf16 ''2026-11-02T10:00:00.001Z''))]"

definition text_sharp :: jstring where
  \<open>text_sharp = utf16 (''{"items":[{"name":"'' @ [CHR 0xDF] @ ''a b","website":"https://sharp.example","description":"desc","category":["tools"],"isOpenSource":true,"id":"a-b-mvz38740","logo":{"bgColor":"#24cf66","text":"SS"},"lastUpdated":"2026-11-02T10:00:00.000Z"}],"lastUpdated":"2026-11-02T10:00:00.001Z"}'')\<close>

text \<open>
  A dataset \<open>text_rated\<close> with a record that carries a number too large for a JavaScript
  number: \<^verbatim>\<open>JSON.parse\<close> reads \<^verbatim>\<open>1e999\<close> as \<^verbatim>\<open>Infinity\<close>, which gives \<open>doc_rated\<close>, and
  \<^verbatim>\<open>JSON.stringify\<close> writes \<^verbatim>\<open>Infinity\<close> as \<^verbatim>\<open>null\<close>. \<open>pretty_rated\<close> is the pretty-printed
  text of \<open>doc_rated\<close>, and \<open>doc_rated_null\<close> is what \<^verbatim>\<open>JSON.parse\<close> reads from it.
\<close>

definition item_rated :: json where
  "item_rated = JObj [(''id'', JStr (utf16 ''big-1'')), (''name'', JStr (utf16 ''Big'')),
                      (''rating'', JNonFinite)]"

definition item_rated_null :: json where
  "item_rated_null = JObj [(''id'', JStr (utf16 ''big-1'')), (''name'', JStr (utf16 ''Big'')),
                           (''rating'', JNull)]"

definition doc_rated :: json where
  "doc_rated = JObj [(''items'', JArr [item_rated]),
                     (''lastUpdated'', JStr (utf16 ''2026-02-02T00:00:00.000Z''))]"

definition doc_rated_null :: json where
  "doc_rated_null = JObj [(''items'', JArr [item_rated_null]),
                          (''lastUpdated'', JStr (utf16 ''2026-02-02T00:00:00.000Z''))]"

definition text_rated :: jstring where
  \<open>text_rated = utf16 ''{"items":[{"id":"big-1","name":"Big","rating":1e999}],"lastUpdated":"2026-02-02T00:00:00.000Z"}''\<close>

definition pretty_rated :: jstring where
  \<open>pretty_rated = utf16 ''{\<newline>  "items": [\<newline>    {\<newline>      "id": "big-1",\<newline>      "name": "Big",\<newline>      "rating": null\<newline>    }\<newline>  ],\<newline>  "lastUpdated": "2026-02-02T00:00:00.000Z"\<newline>}''\<close>

text \<open>A record stamped later than the clock of the update, with an optional field.\<close>

definition item_gamma :: json where
  "item_gamma =
     JObj [(''name'', JStr (utf16 ''Gamma'')), (''website'', JStr (utf16 ''https://gamma.io'')),
           (''description'', JStr (utf16 ''old'')), (''category'', JArr [JStr (utf16 ''tools'')]),
           (''isOpenSource'', JBool False), (''github'', JStr (utf16 ''https://github.com/g/g'')),
           (''id'', JStr (utf16 ''gamma-3'')),
           (''logo'', JObj [(''bgColor'', JStr (utf16 ''#874316'')), (''text'', JStr (utf16 ''G''))]),
           (''lastUpdated'', JStr (utf16 ''2030-01-01T00:00:00.000Z''))]"

definition doc_gamma :: json where
  "doc_gamma = JObj [(''items'', JArr [item_gamma]),
                     (''lastUpdated'', JStr (utf16 ''2030-01-01T00:00:00.000Z''))]"

definition text_gamma :: jstring where
  \<open>text_gamma = utf16 ''{"items":[{"name":"Gamma","website":"https://gamma.io","description":"old","category":["tools"],"isOpenSource":false,"github":"https://github.com/g/g","id":"gamma-3","logo":{"bgColor":"#874316","text":"G"},"lastUpdated":"2030-01-01T00:00:00.000Z"}],"lastUpdated":"2030-01-01T00:00:00.000Z"}''\<close>

definition input_gamma :: "(string \<times> json) list" where
  "input_gamma =
     [(''name'', JStr (utf16 ''Gamma Two'')), (''website'', JStr (utf16 ''https://gamma.io'')),
      (''description'', JStr (utf16 ''new'')), (''category'', JArr [JStr (utf16 ''tools'')]),
      (''isOpenSource'', JBool True)]"

definition item_gamma_updated :: json where
  "item_gamma_updated =
     JObj [(''name'', JStr (utf16 ''Gamma Two'')), (''website'', JStr (utf16 ''https://gamma.io'')),
           (''description'', JStr (utf16 ''new'')), (''category'', JArr [JStr (utf16 ''tools'')]),
           (''isOpenSource'', JBool True), (''github'', JStr (utf16 ''https://github.com/g/g'')),
           (''id'', JStr (utf16 ''gamma-3'')),
           (''logo'', JObj [(''bgColor'', JStr (utf16 ''#874316'')), (''text'', JStr (utf16 ''G''))]),
           (''lastUpdated'', JStr (utf16 ''2026-11-02T10:00:00.000Z''))]"

definition doc_gamma_updated :: json where
  "doc_gamma_updated = JObj [(''items'', JArr [item_gamma_updated]),
                             (''lastUpdated'', JStr (utf16 ''2026-11-02T10:00:00.001Z''))]"

definition text_gamma_updated :: jstring where
  \<open>text_gamma_updated = utf16 ''{"items":[{"name":"Gamma Two","website":"https://gamma.io","description":"new","category":["tools"],"isOpenSource":true,"github":"https://github.com/g/g","id":"gamma-3","logo":{"bgColor":"#874316","text":"G"},"lastUpdated":"2026-11-02T10:00:00.000Z"}],"lastUpdated":"2026-11-02T10:00:00.001Z"}''\<close>

definition parse_demo :: "jstring \<Rightarrow> json option" where
  "parse_demo =
     table_parse
       [(text_seed, doc_seed), (pretty_seed, doc_seed), (text_local, doc_local),
        (text_no_items, doc_no_items), (text_two, doc_two), (text_beta, doc_beta),
        (text_twins, doc_twins), (text_untyped, doc_untyped),
        (text_untyped_left, doc_untyped_left), (text_echo, doc_echo),
        (text_hub, doc_hub), (text_hub_later, doc_hub_later), (text_gamma, doc_gamma),
        (text_gamma_updated, doc_gamma_updated), (text_sharp, doc_sharp), (text_rated, doc_rated),
        (pretty_rated, doc_rated_null)]"

definition stringify_demo :: "json \<Rightarrow> jstring" where
  "stringify_demo =
     table_stringify
       [(doc_seed, text_seed), (doc_local, text_local), (doc_two, text_two),
        (doc_beta, text_beta), (doc_twins, text_twins), (doc_untyped, text_untyped),
        (doc_untyped_left, text_untyped_left), (doc_echo, text_echo),
        (doc_hub, text_hub), (doc_hub_later, text_hub_later), (doc_sharp, text_sharp),
        (doc_gamma, text_gamma),
        (doc_gamma_updated, text_gamma_updated)]"


text \<open>
  In the same way the platform's \<^verbatim>\<open>toLowerCase\<close> and \<^verbatim>\<open>toUpperCase\<close> are given by what
  they return on the strings at hand; the examples apply them to no other string.
\<close>

definition table_case :: "(jstring \<times> jstring) list \<Rightarrow> jstring \<Rightarrow> jstring" where
  "table_case known s = (case map_of known s of Some t \<Rightarrow> t | None \<Rightarrow> s)"

definition lower_demo :: "jstring \<Rightarrow> jstring" where
  "lower_demo =
     table_case
       [(utf16 ''Echo'', utf16 ''echo''),
        (utf16 ''open  agent hub'', utf16 ''open  agent hub''),
        (name_spaced, name_spaced_lower),
        (name_blank, name_blank),
        (name_sharp, name_sharp)]"

definition upper_demo :: "jstring \<Rightarrow> jstring" where
  "upper_demo =
     table_case
       [(utf16 ''E'', utf16 ''E''),
        (utf16 ''oah'', utf16 ''OAH''), (utf16 ''oa'', utf16 ''OA''), (utf16 ''h'', utf16 ''H''),
        ([0x00DF] @ utf16 ''b'', utf16 ''SSB'')]"
section \<open>Facts about the model\<close>

subsection \<open>Strings\<close>

lemma of_char_less_256: "(of_char c :: nat) < 256"
  by (cases c) simp

lemma unat_utf16_unit: "unat (of_nat (of_char c) :: code_unit) = of_char c"
proof -
  have "(of_char c :: nat) < 65536"
    by (rule less_trans [OF of_char_less_256]) simp
  then show ?thesis
    by (simp add: unat_of_nat take_bit_nat_eq_self)
qed

lemma utf16_inject [simp]: "utf16 a = utf16 b \<longleftrightarrow> a = b"
proof -
  have "inj (\<lambda>c :: char. (of_nat (of_char c) :: code_unit))"
  proof (rule injI)
    fix x y :: char
    assume "(of_nat (of_char x) :: code_unit) = of_nat (of_char y)"
    then have "unat (of_nat (of_char x) :: code_unit) = unat (of_nat (of_char y) :: code_unit)"
      by simp
    then have "(of_char x :: nat) = of_char y"
      by (simp only: unat_utf16_unit)
    then show "x = y"
      by simp
  qed
  then show ?thesis
    by (simp add: utf16_def inj_map_eq_map)
qed

lemma utf16_Nil [simp]: "utf16 [] = []"
  by (simp add: utf16_def)

lemma utf16_append: "utf16 (a @ b) = utf16 a @ utf16 b"
  by (simp add: utf16_def)

lemma utf16_eq_Nil [simp]: "utf16 a = [] \<longleftrightarrow> a = []"
  by (simp add: utf16_def)

lemma Nil_eq_utf16 [simp]: "[] = utf16 a \<longleftrightarrow> a = []"
  by (auto simp add: utf16_def)

lemma length_utf16 [simp]: "length (utf16 a) = length a"
  by (simp add: utf16_def)

lemma unat_eq_small: "n < 65536 \<Longrightarrow> (c :: code_unit) = of_nat n \<longleftrightarrow> unat c = n"
  by (auto simp add: unat_of_nat)

lemma mem_units:
  "\<forall>n\<in>set ns. n < 65536 \<Longrightarrow> (c :: code_unit) \<in> set (map of_nat ns) \<longleftrightarrow> unat c \<in> set ns"
  by (induction ns) (auto simp add: unat_eq_small)

subsection \<open>Objects\<close>

lemma lookup_Nil [simp]: "lookup [] k = None"
  by (simp add: lookup_def)

lemma lookup_Cons [simp]:
  "lookup ((a, b) # kvs) k =
     (case lookup kvs k of Some v \<Rightarrow> Some v | None \<Rightarrow> if a = k then Some b else None)"
  by (simp add: lookup_def map_add_def split: option.splits)

lemma map_of_assign: "map_of (assign t s) = map_of t ++ map_of (rev s)"
proof (induction s arbitrary: t)
  case Nil
  show ?case by (simp add: assign_def)
next
  case (Cons x s)
  obtain k v where x: "x = (k, v)" by (cases x)
  have "map_of (assign t (x # s)) = map_of (assign (AList.update k v t) s)"
    by (simp add: assign_def x)
  also have "\<dots> = map_of (AList.update k v t) ++ map_of (rev s)"
    by (rule Cons.IH)
  also have "\<dots> = map_of t ++ map_of (rev (x # s))"
    by (simp add: x update_conv' map_add_def fun_eq_iff split: option.splits)
  finally show ?case .
qed

lemma distinct_assign:
  "distinct (map fst t) \<Longrightarrow> distinct (map fst (assign t s))"
proof (induction s arbitrary: t)
  case Nil
  then show ?case by (simp add: assign_def)
next
  case (Cons x s)
  obtain k v where x: "x = (k, v)" by (cases x)
  have "assign t (x # s) = assign (AList.update k v t) s"
    by (simp add: assign_def x)
  with Cons show ?case by (simp add: distinct_update)
qed

lemma lookup_distinct:
  assumes "distinct (map fst l)"
  shows "lookup l k = map_of l k"
proof -
  have "distinct (map fst (rev l))"
    using assms by (simp add: rev_map [symmetric])
  then have "map_of (rev l) = map_of l"
    using assms by (simp add: map_of_inject_set)
  then show ?thesis by (simp add: lookup_def)
qed

lemma lookup_assign:
  assumes "distinct (map fst t)"
  shows "lookup (assign t s) k = (case lookup s k of Some v \<Rightarrow> Some v | None \<Rightarrow> lookup t k)"
  using assms
  by (simp add: lookup_distinct distinct_assign map_of_assign map_add_def lookup_def [of s]
      split: option.splits)

lemma lookup_update:
  assumes "distinct (map fst l)"
  shows "lookup (AList.update k v l) k' = (if k' = k then Some v else lookup l k')"
  using assms by (simp add: lookup_distinct distinct_update update_conv')

subsection \<open>The structural check and the loaders\<close>

lemma isValidNavigationData_iff:
  "isValidNavigationData d \<longleftrightarrow>
     (\<exists>kvs xs s. d = JObj kvs \<and> lookup kvs ''items'' = Some (JArr xs) \<and>
        lookup kvs ''lastUpdated'' = Some (JStr s))"
proof (cases d)
  case (JObj kvs)
  show ?thesis
  proof (cases "lookup kvs ''items''")
    case None
    with JObj show ?thesis by (simp add: isValidNavigationData_def)
  next
    case (Some v)
    note items = this
    show ?thesis
    proof (cases "lookup kvs ''lastUpdated''")
      case None
      with JObj show ?thesis by (simp add: isValidNavigationData_def)
    next
      case (Some w)
      with JObj items show ?thesis
        by (cases v; cases w) (simp_all add: isValidNavigationData_def)
    qed
  qed
qed (simp_all add: isValidNavigationData_def)

lemma loadFromLocalStorage_spec:
  "parse [] = None \<Longrightarrow> loadFromLocalStorage parse st = spec_overlay parse st"
  by (auto simp: loadFromLocalStorage_def spec_overlay_def split: option.splits)

lemma loadFromLocalStorage_valid:
  "loadFromLocalStorage parse st = Some d \<Longrightarrow> isValidNavigationData d"
  by (auto simp: loadFromLocalStorage_def split: option.splits if_splits)

lemma fetchNavigationData_valid:
  "fetchNavigationData parse r = Inr d \<Longrightarrow> isValidNavigationData d"
  by (auto simp: fetchNavigationData_def split: response.splits option.splits if_splits)

lemma loadNavigationData_cases:
  "loadNavigationData parse r st =
     (case loadFromLocalStorage parse st of
        Some d \<Rightarrow> Inr d
      | None \<Rightarrow> fetchNavigationData parse r)"
  by (simp add: loadNavigationData_def loadFromLocalStorage_def split: option.splits)

lemma spec_empty_collection_valid: "isValidNavigationData (spec_empty_collection now)"
  by (simp add: isValidNavigationData_def spec_empty_collection_def)

lemma loadData_cases:
  "loadData parse r st now =
     (case loadFromLocalStorage parse st of
        Some d \<Rightarrow> d
      | None \<Rightarrow>
          (case fetchNavigationData parse r of
             Inr d \<Rightarrow> d
           | Inl e \<Rightarrow> spec_empty_collection now))"
  by (simp add: loadData_def loadNavigationData_cases spec_empty_collection_def
      split: option.splits sum.splits)

lemma loadData_valid: "isValidNavigationData (loadData parse r st now)"
  by (auto simp: loadData_cases spec_empty_collection_valid
      dest: loadFromLocalStorage_valid fetchNavigationData_valid
      split: option.splits sum.splits)

lemma items_of_valid:
  "isValidNavigationData d \<Longrightarrow> \<exists>xs. items_of d = Inr xs"
  by (auto simp: isValidNavigationData_iff items_of_def)

subsection \<open>The object literals and the array methods\<close>

lemma get_updatedData_of:
  "get (updatedData_of d xs now) k =
     (if k = ''lastUpdated'' then Some (JStr now)
      else if k = ''items'' then Some (JArr xs)
      else lookup (own_props d) k)"
  by (simp add: updatedData_of_def lookup_update lookup_assign distinct_update distinct_assign
      split: option.splits)

lemma items_of_updatedData_of [simp]: "items_of (updatedData_of d xs now) = Inr xs"
  by (simp add: items_of_def updatedData_of_def lookup_update distinct_update distinct_assign)

lemma updatedData_of_valid [simp]: "isValidNavigationData (updatedData_of d xs now)"
  by (simp add: isValidNavigationData_def get_updatedData_of) (simp add: updatedData_of_def)

lemma id_is_not_null: "JNull \<noteq> item \<Longrightarrow> id_is i item = Inr (get item ''id'' = Some (JStr i))"
  by (cases item) (simp_all add: id_is_def)

lemma id_is_not_not_null:
  "JNull \<noteq> item \<Longrightarrow> id_is_not i item = Inr (get item ''id'' \<noteq> Some (JStr i))"
  by (cases item) (simp_all add: id_is_not_def)

lemma js_some_total:
  "JNull \<notin> set items \<Longrightarrow>
   js_some (id_is i) items = Inr (list_ex (\<lambda>item. get item ''id'' = Some (JStr i)) items)"
  by (induction items) (auto simp: id_is_not_null)

lemma js_filter_total:
  "JNull \<notin> set items \<Longrightarrow>
   js_filter (id_is_not i) items = Inr (filter (\<lambda>item. get item ''id'' \<noteq> Some (JStr i)) items)"
  by (induction items) (auto simp: id_is_not_not_null)

lemma js_findIndex_none:
  "JNull \<notin> set items \<Longrightarrow> \<not> list_ex (\<lambda>item. get item ''id'' = Some (JStr i)) items \<Longrightarrow>
   js_findIndex (id_is i) items = Inr None"
  by (induction items) (auto simp: id_is_not_null)

lemma js_findIndex_first:
  "JNull \<notin> set items \<Longrightarrow> n < length items \<Longrightarrow> get (items ! n) ''id'' = Some (JStr i) \<Longrightarrow>
   \<not> list_ex (\<lambda>item. get item ''id'' = Some (JStr i)) (take n items) \<Longrightarrow>
   js_findIndex (id_is i) items = Inr (Some n)"
proof (induction items arbitrary: n)
  case Nil
  then show ?case by simp
next
  case (Cons x xs)
  show ?case
  proof (cases n)
    case 0
    with Cons.prems show ?thesis by (simp add: id_is_not_null)
  next
    case (Suc m)
    with Cons.prems have "js_findIndex (id_is i) xs = Inr (Some m)"
      by (intro Cons.IH) auto
    with Cons.prems Suc show ?thesis by (simp add: id_is_not_null)
  qed
qed

lemma own_props_get:
  "get v ''id'' = Some x \<Longrightarrow> lookup (own_props v) k = get v k"
  by (cases v) simp_all

subsection \<open>The mutations, step by step\<close>

lemma get_newItem_of:
  "get (newItem_of itemData newId logo now) k =
     (if k = ''lastUpdated'' then Some (JStr now)
      else if k = ''logo'' then Some logo
      else if k = ''id'' then Some (JStr newId)
      else lookup itemData k)"
  by (simp add: newItem_of_def lookup_update lookup_assign distinct_update distinct_assign
      split: option.splits)

lemma get_updatedItem_of:
  "get (updatedItem_of existingItem updatedItemData now) k =
     (if k = ''lastUpdated'' then Some (JStr now)
      else (case lookup updatedItemData k of
              Some v \<Rightarrow> Some v
            | None \<Rightarrow> lookup (own_props existingItem) k))"
  by (simp add: updatedItem_of_def lookup_update lookup_assign distinct_update distinct_assign
      split: option.splits)

lemma items_of_error: "items_of d = Inl e \<Longrightarrow> e = TypeError"
  by (cases d) (auto simp: items_of_def split: option.splits json.splits)

lemma id_is_error: "id_is i item = Inl e \<Longrightarrow> e = TypeError"
  by (cases item) (simp_all add: id_is_def)

lemma id_is_not_error: "id_is_not i item = Inl e \<Longrightarrow> e = TypeError"
  by (cases item) (simp_all add: id_is_not_def)

lemma js_some_error: "js_some (id_is i) items = Inl e \<Longrightarrow> e = TypeError"
  by (induction items) (auto split: sum.splits if_splits dest: id_is_error)

lemma js_findIndex_error: "js_findIndex (id_is i) items = Inl e \<Longrightarrow> e = TypeError"
  by (induction items) (auto split: sum.splits if_splits dest: id_is_error)

lemma js_filter_error: "js_filter (id_is_not i) items = Inl e \<Longrightarrow> e = TypeError"
  by (induction items) (auto split: sum.splits if_splits dest: id_is_not_error)

lemma saveToLocalStorage_cases:
  "saveToLocalStorage stringify d st =
     (if length (stringify d) \<le> quota st then Inr (st\<lparr>slot := Some (stringify d)\<rparr>)
      else Inl QuotaExceeded)"
  by (simp add: saveToLocalStorage_def setItem_def)

lemma addItem_error:
  assumes "addItem parse stringify lower upper r st t_load now_ms t_item t_data itemData = Inl e"
  shows "e = TypeError \<or> e = QuotaExceeded \<or> (\<exists>i. e = AlreadyExists i)"
  using assms
  by (auto simp: addItem_def Let_def saveToLocalStorage_cases
      split: option.splits json.splits sum.splits if_splits
      dest: items_of_error js_some_error)

lemma updateItem_error:
  assumes "updateItem parse stringify r st t_load t_item t_data i input = Inl e"
  shows "e = TypeError \<or> e = QuotaExceeded \<or> e = NotFound i"
  using assms
  by (auto simp: updateItem_def Let_def saveToLocalStorage_cases
      split: option.splits sum.splits if_splits
      dest: items_of_error js_findIndex_error)

lemma deleteItem_error:
  assumes "deleteItem parse stringify r st t_load t_data i = Inl e"
  shows "e = TypeError \<or> e = QuotaExceeded \<or> e = NotFound i"
  using assms
  by (auto simp: deleteItem_def Let_def saveToLocalStorage_cases
      split: option.splits sum.splits if_splits
      dest: items_of_error js_filter_error)

lemma addItem_eq:
  assumes "items_of (loadData parse r st t_load) = Inr items"
      and "JNull \<notin> set items"
      and "lookup itemData ''name'' = Some (JStr name)"
  shows "addItem parse stringify lower upper r st t_load now_ms t_item t_data itemData =
     (if list_ex (\<lambda>item. get item ''id'' = Some (JStr (generateId lower name now_ms))) items
      then Inl (AlreadyExists (generateId lower name now_ms))
      else case saveToLocalStorage stringify
                  (updatedData_of (loadData parse r st t_load)
                     (items @ [newItem_of itemData (generateId lower name now_ms)
                                 (generateDefaultLogo upper name) t_item]) t_data) st of
             Inl e \<Rightarrow> Inl e
           | Inr st' \<Rightarrow>
               Inr (items @ [newItem_of itemData (generateId lower name now_ms)
                                 (generateDefaultLogo upper name) t_item], st'))"
  using assms by (simp add: addItem_def Let_def js_some_total)

lemma updateItem_missing:
  assumes "items_of (loadData parse r st t_load) = Inr items"
      and "JNull \<notin> set items"
      and "\<not> list_ex (\<lambda>item. get item ''id'' = Some (JStr i)) items"
  shows "updateItem parse stringify r st t_load t_item t_data i input = Inl (NotFound i)"
  using assms by (simp add: updateItem_def Let_def js_findIndex_none)

lemma updateItem_found:
  assumes "items_of (loadData parse r st t_load) = Inr items"
      and "JNull \<notin> set items"
      and "n < length items"
      and "get (items ! n) ''id'' = Some (JStr i)"
      and "\<not> list_ex (\<lambda>item. get item ''id'' = Some (JStr i)) (take n items)"
  shows "updateItem parse stringify r st t_load t_item t_data i input =
     (case saveToLocalStorage stringify
             (updatedData_of (loadData parse r st t_load)
                (items[n := updatedItem_of (items ! n) input t_item]) t_data) st of
        Inl e \<Rightarrow> Inl e
      | Inr st' \<Rightarrow> Inr (items[n := updatedItem_of (items ! n) input t_item], st'))"
  using assms by (simp add: updateItem_def Let_def js_findIndex_first)

lemma deleteItem_eq:
  assumes "items_of (loadData parse r st t_load) = Inr items"
      and "JNull \<notin> set items"
  shows "deleteItem parse stringify r st t_load t_data i =
     (if length (filter (\<lambda>item. get item ''id'' \<noteq> Some (JStr i)) items) = length items
      then Inl (NotFound i)
      else case saveToLocalStorage stringify
                  (updatedData_of (loadData parse r st t_load)
                     (filter (\<lambda>item. get item ''id'' \<noteq> Some (JStr i)) items) t_data) st of
             Inl e \<Rightarrow> Inl e
           | Inr st' \<Rightarrow> Inr (filter (\<lambda>item. get item ''id'' \<noteq> Some (JStr i)) items, st'))"
  using assms by (simp add: deleteItem_def Let_def js_filter_total)

lemma loadData_after_save:
  assumes "parse [] = None"
      and "parse (stringify d) = Some d"
      and "isValidNavigationData d"
      and "slot st' = Some (stringify d)"
  shows "loadData parse r st' now = d"
proof -
  have "stringify d \<noteq> []"
    using assms(1,2) by auto
  with assms show ?thesis
    by (simp add: loadData_def loadFromLocalStorage_def)
qed

lemma filter_id_split:
  "length (filter (\<lambda>item. get item ''id'' \<noteq> Some (JStr i)) items)
     + length (filter (\<lambda>item. get item ''id'' = Some (JStr i)) items) = length items"
  using sum_length_filter_compl [of "\<lambda>item. get item ''id'' = Some (JStr i)" items]
  by simp

subsection \<open>The platform of the examples\<close>

lemmas text_defs =
  text_seed_def pretty_seed_def text_local_def text_no_items_def text_two_def text_beta_def
  text_twins_def text_untyped_def text_untyped_left_def text_echo_def text_hub_def text_hub_later_def text_sharp_def
  text_gamma_def text_gamma_updated_def text_rated_def pretty_rated_def

lemmas item_defs =
  item_seed_def item_mine_def item_alpha_def item_beta_def item_twin_first_def
  item_twin_second_def item_untyped_def item_echo_def item_hub_def item_hub_later_def item_sharp_def item_gamma_def
  item_gamma_updated_def item_rated_def item_rated_null_def

lemmas doc_defs =
  doc_seed_def doc_local_def doc_no_items_def doc_two_def doc_beta_def doc_twins_def
  doc_untyped_def doc_untyped_left_def doc_echo_def doc_hub_def doc_hub_later_def doc_sharp_def doc_gamma_def
  doc_gamma_updated_def doc_rated_def doc_rated_null_def

lemma parse_demo_empty: "parse_demo [] = None"
  by (simp add: parse_demo_def table_parse_def text_defs)

lemma parse_demo_texts:
  "parse_demo text_seed = Some doc_seed"
  "parse_demo pretty_seed = Some doc_seed"
  "parse_demo text_local = Some doc_local"
  "parse_demo text_no_items = Some doc_no_items"
  "parse_demo text_two = Some doc_two"
  "parse_demo text_beta = Some doc_beta"
  "parse_demo text_twins = Some doc_twins"
  "parse_demo text_untyped = Some doc_untyped"
  "parse_demo text_untyped_left = Some doc_untyped_left"
  "parse_demo text_echo = Some doc_echo"
  "parse_demo text_hub = Some doc_hub"
  "parse_demo text_hub_later = Some doc_hub_later"
  "parse_demo text_sharp = Some doc_sharp"
  "parse_demo text_gamma = Some doc_gamma"
  "parse_demo text_gamma_updated = Some doc_gamma_updated"
  "parse_demo text_rated = Some doc_rated"
  "parse_demo pretty_rated = Some doc_rated_null"
  by (simp_all add: parse_demo_def table_parse_def text_defs)

lemma stringify_demo_docs:
  "stringify_demo doc_beta = text_beta"
  "stringify_demo doc_untyped_left = text_untyped_left"
  "stringify_demo doc_echo = text_echo"
  "stringify_demo doc_hub = text_hub"
  "stringify_demo doc_hub_later = text_hub_later"
  "stringify_demo doc_sharp = text_sharp"
  "stringify_demo doc_gamma_updated = text_gamma_updated"
  by (simp_all add: stringify_demo_def table_stringify_def doc_defs item_defs)



lemma doc_valid:
  "isValidNavigationData doc_seed"
  "isValidNavigationData doc_local"
  "\<not> isValidNavigationData doc_no_items"
  "isValidNavigationData doc_two"
  "isValidNavigationData doc_beta"
  "isValidNavigationData doc_twins"
  "isValidNavigationData doc_untyped"
  "isValidNavigationData doc_echo"
  "isValidNavigationData doc_gamma"
  "isValidNavigationData doc_rated"
  "isValidNavigationData doc_rated_null"
  by (simp_all add: isValidNavigationData_def doc_defs)
subsection \<open>The identifier\<close>

text \<open>The two ways of writing the whitespace and the characters of an identifier agree.\<close>

lemma is_space_spec: "is_space c \<longleftrightarrow> spec_whitespace c"
proof -
  have controls: "(0x0009 \<le> c \<and> c \<le> 0x000D) \<longleftrightarrow> c \<in> set (map of_nat [9..<14])"
    by (subst mem_units) (auto simp add: word_le_nat_alt simp del: upt_rec_numeral)
  have spaces: "(0x2000 \<le> c \<and> c \<le> 0x200A) \<longleftrightarrow> c \<in> set (map of_nat [8192..<8203])"
    by (subst mem_units) (auto simp add: word_le_nat_alt simp del: upt_rec_numeral)
  show ?thesis
    unfolding is_space_def spec_whitespace_def controls spaces
    by (simp add: upt_rec)
qed

lemma strip_other_keeps:
  "(0x0061 \<le> c \<and> c \<le> 0x007A) \<or> (0x0030 \<le> c \<and> c \<le> 0x0039) \<or> c = 0x002D
   \<longleftrightarrow> spec_id_char c"
proof -
  have letters: "(0x0061 \<le> c \<and> c \<le> 0x007A) \<longleftrightarrow> c \<in> set (map of_nat [97..<123])"
    by (subst mem_units) (auto simp add: word_le_nat_alt simp del: upt_rec_numeral)
  have digits: "(0x0030 \<le> c \<and> c \<le> 0x0039) \<longleftrightarrow> c \<in> set (map of_nat [48..<58])"
    by (subst mem_units) (auto simp add: word_le_nat_alt simp del: upt_rec_numeral)
  have alphabet: "set (utf16 ''abcdefghijklmnopqrstuvwxyz'') = set (map of_nat [97..<123])"
    by (simp add: utf16_def upt_rec)
  have numerals: "set (utf16 ''0123456789'') = set (map of_nat [48..<58])"
    by (simp add: utf16_def upt_rec)
  show ?thesis
    unfolding spec_id_char_def letters digits alphabet numerals
    by (simp add: utf16_def)
qed

lemma spec_hyphenate_space:
  "spec_whitespace c \<Longrightarrow>
   spec_hyphenate (c # cs) = 0x002D # spec_hyphenate (dropWhile spec_whitespace cs)"
proof (induction cs arbitrary: c)
  case Nil
  then show ?case by (simp add: utf16_def)
next
  case (Cons d ds)
  then show ?case by (cases "spec_whitespace d") (simp_all add: utf16_def)
qed

lemma spec_hyphenate_other:
  "\<not> spec_whitespace c \<Longrightarrow> spec_hyphenate (c # cs) = c # spec_hyphenate cs"
  by (cases cs) simp_all

lemma replace_space_runs_spec: "replace_space_runs s = spec_hyphenate s"
proof -
  have same: "is_space = spec_whitespace"
    by (simp add: fun_eq_iff is_space_spec)
  show ?thesis
    by (induction s rule: replace_space_runs.induct)
       (simp_all add: spec_hyphenate_space spec_hyphenate_other same [symmetric])
qed

lemma strip_other_spec: "strip_other s = filter spec_id_char s"
  unfolding strip_other_def by (rule filter_cong) (simp_all only: strip_other_keeps)

lemma digits36_index: "n < 36 \<Longrightarrow> spec_digit_value (digits36 ! n) = n"
proof -
  have "list_all (\<lambda>n. spec_digit_value (digits36 ! n) = n) [0 ..< 36]"
    by code_simp
  then show "n < 36 \<Longrightarrow> spec_digit_value (digits36 ! n) = n"
    by (simp add: list_all_iff)
qed

lemma digits36_member: "n < 36 \<Longrightarrow> digits36 ! n \<in> set digits36"
proof -
  have "length digits36 = 36"
    by (simp add: digits36_def)
  then show "n < 36 \<Longrightarrow> digits36 ! n \<in> set digits36"
    using nth_mem [of n digits36] by simp
qed

lemma spec_base36_value_snoc: "spec_base36_value (s @ [c]) = spec_base36_value s * 36 + spec_digit_value c"
  by (simp add: spec_base36_value_def)

lemma toString_radix_36_digits: "set (toString_radix 36 n) \<subseteq> set digits36"
proof (induction n rule: less_induct)
  case (less n)
  show ?case
  proof (cases "n < 36")
    case True
    then show ?thesis
      by (subst toString_radix.simps) (simp add: digits36_member)
  next
    case False
    then have "n div 36 < n" by simp
    from less.IH [OF this] False show ?thesis
      by (subst toString_radix.simps) (simp add: digits36_member)
  qed
qed

lemma toString_radix_36_value: "spec_base36_value (toString_radix 36 n) = n"
proof (induction n rule: less_induct)
  case (less n)
  show ?case
  proof (cases "n < 36")
    case True
    then show ?thesis
      by (subst toString_radix.simps) (simp add: spec_base36_value_def digits36_index)
  next
    case False
    then have "n div 36 < n" by simp
    from less.IH [OF this] False show ?thesis
      by (subst toString_radix.simps) (simp add: spec_base36_value_snoc digits36_index)
  qed
qed

lemma generateId_spec:
  "generateId lower name now = spec_slug lower name @ utf16 ''-'' @ utf16 (toString_radix 36 now)"
  by (simp add: generateId_def spec_slug_def replace_space_runs_spec strip_other_spec)

lemma generateId_Echo:
  "lower (utf16 ''Echo'') = utf16 ''echo'' \<Longrightarrow>
   generateId lower (utf16 ''Echo'') now = utf16 ''echo-'' @ utf16 (toString_radix 36 now)"
  by (simp add: generateId_def) (simp add: utf16_def strip_other_def is_space_def)

lemma generateId_spaced:
  "lower name_spaced = name_spaced_lower \<Longrightarrow>
   generateId lower name_spaced now =
     utf16 ''-my-cool-agent-v2---'' @ utf16 (toString_radix 36 now)"
  by (simp add: generateId_def) (simp add: name_spaced_lower_def utf16_def strip_other_def is_space_def)

lemma generateId_blank:
  "lower name_blank = name_blank \<Longrightarrow>
   generateId lower name_blank now = utf16 ''x-yz-'' @ utf16 (toString_radix 36 now)"
  by (simp add: generateId_def) (simp add: name_blank_def utf16_def strip_other_def is_space_def)

subsection \<open>The initials\<close>

lemma getInitials_Echo:
  "upper (utf16 ''E'') = utf16 ''E'' \<Longrightarrow> getInitials upper (utf16 ''Echo'') = utf16 ''E''"
proof -
  have "join_empty (map first_char (split_space (utf16 ''Echo''))) = utf16 ''E''"
    by (simp add: utf16_def join_empty_def first_char_def)
  then show "upper (utf16 ''E'') = utf16 ''E'' \<Longrightarrow> getInitials upper (utf16 ''Echo'') = utf16 ''E''"
    by (simp add: getInitials_def)
qed







subsection \<open>The update of the example record\<close>

lemma gamma_load:
  "loadData parse_demo Rejected \<lparr>slot = Some text_gamma, quota = 5000\<rparr>
     (utf16 ''2026-11-02T09:59:59.999Z'') = doc_gamma"
  by (simp add: loadData_def loadFromLocalStorage_def parse_demo_texts doc_valid)
     (simp add: text_gamma_def)

lemma gamma_items: "items_of doc_gamma = Inr [item_gamma]"
  by (simp add: doc_gamma_def items_of_def)

lemma gamma_merged:
  "updatedItem_of item_gamma input_gamma (utf16 ''2026-11-02T10:00:00.000Z'') = item_gamma_updated"
  by (simp add: updatedItem_of_def item_gamma_def input_gamma_def item_gamma_updated_def
      assign_def)

lemma gamma_saved:
  "updatedData_of doc_gamma [item_gamma_updated] (utf16 ''2026-11-02T10:00:00.001Z'')
     = doc_gamma_updated"
  by (simp add: updatedData_of_def doc_gamma_def doc_gamma_updated_def assign_def)

lemma gamma_fits: "length text_gamma_updated \<le> 5000"
  by (simp add: text_gamma_updated_def)

lemma updateItem_gamma:
  "updateItem parse_demo stringify_demo Rejected \<lparr>slot = Some text_gamma, quota = 5000\<rparr>
     (utf16 ''2026-11-02T09:59:59.999Z'') (utf16 ''2026-11-02T10:00:00.000Z'') (utf16 ''2026-11-02T10:00:00.001Z'')
     (utf16 ''gamma-3'') input_gamma
     = Inr ([item_gamma_updated], \<lparr>slot = Some text_gamma_updated, quota = 5000\<rparr>)"
proof -
  have found: "js_findIndex (id_is (utf16 ''gamma-3'')) [item_gamma] = Inr (Some 0)"
    by (simp add: item_gamma_def id_is_def)
  show ?thesis
    by (simp add: updateItem_def gamma_load gamma_items found gamma_merged gamma_saved
        saveToLocalStorage_cases stringify_demo_docs gamma_fits del: js_findIndex.simps)
qed
subsection \<open>The creations of the example records\<close>

lemma lower_demo_names:
  "lower_demo (utf16 ''Echo'') = utf16 ''echo''"
  "lower_demo (utf16 ''open  agent hub'') = utf16 ''open  agent hub''"
  "lower_demo name_spaced = name_spaced_lower"
  "lower_demo name_blank = name_blank"
  "lower_demo name_sharp = name_sharp"
  by (simp_all add: lower_demo_def table_case_def name_spaced_def name_blank_def name_sharp_def
      utf16_def)

lemma upper_demo_letters:
  "upper_demo (utf16 ''E'') = utf16 ''E''"
  "upper_demo (utf16 ''oah'') = utf16 ''OAH''"
  "upper_demo (utf16 ''oa'') = utf16 ''OA''"
  "upper_demo (utf16 ''h'') = utf16 ''H''"
  "upper_demo ([0x00DF] @ utf16 ''b'') = utf16 ''SSB''"
  by (simp_all add: upper_demo_def table_case_def utf16_def)

lemma echo_logo:
  "generateDefaultLogo upper_demo (utf16 ''Echo'')
   = JObj [(''bgColor'', JStr (utf16 ''#45de20'')), (''text'', JStr (utf16 ''E''))]"
proof -
  have "stringToColor (utf16 ''Echo'') = utf16 ''#45de20''"
    by code_simp
  then show ?thesis
    by (simp add: generateDefaultLogo_def getInitials_Echo upper_demo_letters)
qed

lemma addItem_echo:
  "addItem parse_demo stringify_demo lower_demo upper_demo Rejected \<lparr>slot = None, quota = 5000\<rparr>
   (utf16 ''2026-11-02T09:59:59.999Z'') 1793613600000 (utf16 ''2026-11-02T10:00:00.000Z'')
   (utf16 ''2026-11-02T10:00:00.001Z'') input_echo
   = Inr ([item_echo], \<lparr>slot = Some text_echo, quota = 5000\<rparr>)"
proof -
  have load: "loadData parse_demo Rejected \<lparr>slot = None, quota = 5000\<rparr>
                (utf16 ''2026-11-02T09:59:59.999Z'')
              = spec_empty_collection (utf16 ''2026-11-02T09:59:59.999Z'')"
    by (simp add: loadData_cases loadFromLocalStorage_def fetchNavigationData_def)
  have newId: "generateId lower_demo (utf16 ''Echo'') 1793613600000 = utf16 ''echo-mvz38740''"
    by (simp add: generateId_Echo lower_demo_names toString_radix.simps digits36_def
        utf16_append [symmetric])
  have newItem: "newItem_of input_echo (utf16 ''echo-mvz38740'')
                   (JObj [(''bgColor'', JStr (utf16 ''#45de20'')), (''text'', JStr (utf16 ''E''))])
                   (utf16 ''2026-11-02T10:00:00.000Z'') = item_echo"
    by (simp add: newItem_of_def input_echo_def item_echo_def assign_def)
  have saved: "updatedData_of (spec_empty_collection (utf16 ''2026-11-02T09:59:59.999Z''))
                 [item_echo] (utf16 ''2026-11-02T10:00:00.001Z'') = doc_echo"
    by (simp add: updatedData_of_def spec_empty_collection_def doc_echo_def assign_def)
  have fits: "length text_echo \<le> 5000"
    by (simp add: text_echo_def)
  have name: "lookup input_echo ''name'' = Some (JStr (utf16 ''Echo''))"
    by (simp add: input_echo_def)
  have cur: "items_of (spec_empty_collection (utf16 ''2026-11-02T09:59:59.999Z'')) = Inr []"
    by (simp add: spec_empty_collection_def items_of_def)
  show ?thesis
    by (simp add: addItem_def load name newId echo_logo newItem cur saved
        saveToLocalStorage_cases stringify_demo_docs fits)
qed











subsection \<open>The import handler\<close>

text \<open>Whatever the file, the handler leaves the storage as it was.\<close>

lemma handleImportData_store: "store (handleImportData parse chosen page) = store page"
  by (simp add: handleImportData_def split: option.splits sum.splits)

section \<open>The claims\<close>

text \<open>
  C1. Precedence of the source reader. \<^verbatim>\<open>loadNavigationData\<close> reads the local overlay
  first. Whenever the overlay is present and passes the collection-level structural
  check, its content is returned whatever the fetch of the bundled dataset would
  answer: the bundled dataset is not consulted, so repeated calls keep returning the
  overlay content even when the bundled dataset changes. Otherwise the outcome is the
  one of the fetch: a rejected fetch, a non-success status, a body that is not JSON and
  a payload that fails the structural check each make the call fail with that cause,
  and a payload that passes is returned. (\<^verbatim>\<open>JSON.parse\<close> throws on the empty text.)
\<close>

theorem loadNavigationData_precedence:
  assumes "parse [] = None"
  shows "(\<forall>d. spec_overlay parse st = Some d \<longrightarrow>
            (\<forall>r. loadNavigationData parse r st = Inr d)) \<and>
         (spec_overlay parse st = None \<longrightarrow>
            loadNavigationData parse Rejected st = Inl NetworkError \<and>
            (\<forall>code msg text.
               loadNavigationData parse (Response False code msg text) st
                 = Inl (FetchFailed code msg)) \<and>
            (\<forall>code msg text. parse text = None \<longrightarrow>
               loadNavigationData parse (Response True code msg text) st = Inl SyntaxError) \<and>
            (\<forall>code msg text d. parse text = Some d \<and> \<not> isValidNavigationData d \<longrightarrow>
               loadNavigationData parse (Response True code msg text) st
                 = Inl InvalidStructure) \<and>
            (\<forall>code msg text d. parse text = Some d \<and> isValidNavigationData d \<longrightarrow>
               loadNavigationData parse (Response True code msg text) st = Inr d))"
  using assms
  by (simp add: loadNavigationData_cases loadFromLocalStorage_spec fetchNavigationData_def)

theorem loadNavigationData_precedence_witness:
  "parse_demo [] = None \<and>
   spec_overlay parse_demo \<lparr>slot = Some text_local, quota = 5000\<rparr> = Some doc_local \<and>
   loadNavigationData parse_demo (Response True 200 ''OK'' text_seed)
     \<lparr>slot = Some text_local, quota = 5000\<rparr> = Inr doc_local \<and>
   loadNavigationData parse_demo (Response False 404 ''Not Found'' [])
     \<lparr>slot = Some text_local, quota = 5000\<rparr> = Inr doc_local \<and>
   spec_overlay parse_demo \<lparr>slot = None, quota = 5000\<rparr> = None \<and>
   loadNavigationData parse_demo Rejected \<lparr>slot = None, quota = 5000\<rparr> = Inl NetworkError \<and>
   loadNavigationData parse_demo (Response False 404 ''Not Found'' [])
     \<lparr>slot = None, quota = 5000\<rparr> = Inl (FetchFailed 404 ''Not Found'') \<and>
   loadNavigationData parse_demo (Response True 200 ''OK'' (utf16 ''<!doctype html>''))
     \<lparr>slot = None, quota = 5000\<rparr> = Inl SyntaxError \<and>
   loadNavigationData parse_demo (Response True 200 ''OK'' text_no_items)
     \<lparr>slot = None, quota = 5000\<rparr> = Inl InvalidStructure \<and>
   loadNavigationData parse_demo (Response True 200 ''OK'' text_seed)
     \<lparr>slot = None, quota = 5000\<rparr> = Inr doc_seed"
proof -
  have local: "spec_overlay parse_demo \<lparr>slot = Some text_local, quota = 5000\<rparr> = Some doc_local"
    by (simp add: spec_overlay_def parse_demo_texts doc_valid)
  have none: "spec_overlay parse_demo \<lparr>slot = None, quota = 5000\<rparr> = None"
    by (simp add: spec_overlay_def)
  have html: "parse_demo (utf16 ''<!doctype html>'') = None"
    by (simp add: parse_demo_def table_parse_def text_defs)
  from loadNavigationData_precedence
         [of parse_demo "\<lparr>slot = Some text_local, quota = 5000\<rparr>", OF parse_demo_empty]
    loadNavigationData_precedence
         [of parse_demo "\<lparr>slot = None, quota = 5000\<rparr>", OF parse_demo_empty]
    local none html
  show ?thesis by (simp add: parse_demo_empty parse_demo_texts doc_valid)
qed
text \<open>
  C2. The contract of \<^verbatim>\<open>addItem\<close>, for an input whose \<^verbatim>\<open>name\<close> is a string and a current
  collection whose items are not \<^verbatim>\<open>null\<close>. The generated id is the slug of the name (the
  name lower-cased, each run of whitespace replaced by one hyphen, every character other
  than a lowercase letter, a digit or a hyphen stripped), a hyphen, and a string of
  base-36 digits that encodes the timestamp. When an item of the current collection
  carries this id the call fails with \<^verbatim>\<open>already exists\<close> (and writes nothing);
  otherwise, the write fitting the storage, it appends exactly one record, which carries
  the generated id, the logo derived from the name, the time of the call and the
  fields of the input, and stores the new collection. For the name \<^verbatim>\<open>Echo\<close>, whose lower
  case is \<^verbatim>\<open>echo\<close>, the id is \<^verbatim>\<open>echo-\<close> followed by the timestamp in base 36, and the
  initials of the logo are \<^verbatim>\<open>E\<close>. For the name \<open>name_spaced\<close> the id begins with
  \<^verbatim>\<open>-my-cool-agent-v2---\<close>: the two leading spaces, the tab, the no-break space, the
  ideographic space and the final space each give one hyphen, and the exclamation marks
  and the letter U+00E9 are stripped. For the name \<open>name_blank\<close> it begins with \<^verbatim>\<open>x-yz-\<close>:
  the run of all whitespace characters gives one hyphen, and U+0085 and U+200B are
  stripped.
\<close>

theorem addItem_contract:
  fixes parse :: "jstring \<Rightarrow> json option" and stringify :: "json \<Rightarrow> jstring"
    and lower upper :: "jstring \<Rightarrow> jstring"
    and r :: response and st :: storage and t_load t_item t_data name newId :: jstring
    and now_ms :: nat and itemData :: "(string \<times> json) list"
    and items :: "json list" and newItem :: json
  defines "newId \<equiv> generateId lower name now_ms"
  defines "newItem \<equiv> newItem_of itemData newId (generateDefaultLogo upper name) t_item"
  assumes name: "lookup itemData ''name'' = Some (JStr name)"
      and cur: "items_of (loadData parse r st t_load) = Inr items"
      and nonnull: "JNull \<notin> set items"
  shows "(\<exists>suffix. newId = spec_slug lower name @ utf16 ''-'' @ utf16 suffix \<and>
            set suffix \<subseteq> set digits36 \<and> spec_base36_value suffix = now_ms) \<and>
         (list_ex (\<lambda>item. get item ''id'' = Some (JStr newId)) items \<longrightarrow>
            addItem parse stringify lower upper r st t_load now_ms t_item t_data itemData
              = Inl (AlreadyExists newId)) \<and>
         (\<not> list_ex (\<lambda>item. get item ''id'' = Some (JStr newId)) items \<and>
          length (stringify (updatedData_of (loadData parse r st t_load)
                               (items @ [newItem]) t_data)) \<le> quota st \<longrightarrow>
            addItem parse stringify lower upper r st t_load now_ms t_item t_data itemData
              = Inr (items @ [newItem],
                     st\<lparr>slot := Some (stringify (updatedData_of (loadData parse r st t_load)
                                                   (items @ [newItem]) t_data))\<rparr>) \<and>
            get newItem ''id'' = Some (JStr newId) \<and>
            get newItem ''logo'' = Some (generateDefaultLogo upper name) \<and>
            get newItem ''lastUpdated'' = Some (JStr t_item) \<and>
            (\<forall>k. k \<noteq> ''id'' \<and> k \<noteq> ''logo'' \<and> k \<noteq> ''lastUpdated'' \<longrightarrow>
                 get newItem k = lookup itemData k)) \<and>
         (lower (utf16 ''Echo'') = utf16 ''echo'' \<longrightarrow>
            generateId lower (utf16 ''Echo'') now_ms
              = utf16 ''echo-'' @ utf16 (toString_radix 36 now_ms)) \<and>
         (upper (utf16 ''E'') = utf16 ''E'' \<longrightarrow>
            get (generateDefaultLogo upper (utf16 ''Echo'')) ''text'' = Some (JStr (utf16 ''E''))) \<and>
         (lower name_spaced = name_spaced_lower \<longrightarrow>
            generateId lower name_spaced now_ms
              = utf16 ''-my-cool-agent-v2---'' @ utf16 (toString_radix 36 now_ms)) \<and>
         (lower name_blank = name_blank \<longrightarrow>
            generateId lower name_blank now_ms
              = utf16 ''x-yz-'' @ utf16 (toString_radix 36 now_ms))"
proof -
  have slug: "\<exists>suffix. newId = spec_slug lower name @ utf16 ''-'' @ utf16 suffix \<and>
            set suffix \<subseteq> set digits36 \<and> spec_base36_value suffix = now_ms"
    unfolding newId_def generateId_spec
    using toString_radix_36_digits [of now_ms] toString_radix_36_value [of now_ms] by blast
  have step: "addItem parse stringify lower upper r st t_load now_ms t_item t_data itemData =
     (if list_ex (\<lambda>item. get item ''id'' = Some (JStr newId)) items
      then Inl (AlreadyExists newId)
      else case saveToLocalStorage stringify
                  (updatedData_of (loadData parse r st t_load) (items @ [newItem]) t_data) st of
             Inl e \<Rightarrow> Inl e
           | Inr st' \<Rightarrow> Inr (items @ [newItem], st'))"
    unfolding newId_def newItem_def by (rule addItem_eq [OF cur nonnull name])
  have fields: "get newItem ''id'' = Some (JStr newId) \<and>
            get newItem ''logo'' = Some (generateDefaultLogo upper name) \<and>
            get newItem ''lastUpdated'' = Some (JStr t_item) \<and>
            (\<forall>k. k \<noteq> ''id'' \<and> k \<noteq> ''logo'' \<and> k \<noteq> ''lastUpdated'' \<longrightarrow>
                 get newItem k = lookup itemData k)"
    by (simp add: newItem_def get_newItem_of)
  have echo: "upper (utf16 ''E'') = utf16 ''E'' \<longrightarrow>
      get (generateDefaultLogo upper (utf16 ''Echo'')) ''text'' = Some (JStr (utf16 ''E''))"
    by (simp add: generateDefaultLogo_def getInitials_Echo)
  have ids: "lower (utf16 ''Echo'') = utf16 ''echo'' \<longrightarrow>
            generateId lower (utf16 ''Echo'') now_ms
              = utf16 ''echo-'' @ utf16 (toString_radix 36 now_ms)"
    "lower name_spaced = name_spaced_lower \<longrightarrow>
            generateId lower name_spaced now_ms
              = utf16 ''-my-cool-agent-v2---'' @ utf16 (toString_radix 36 now_ms)"
    "lower name_blank = name_blank \<longrightarrow>
            generateId lower name_blank now_ms
              = utf16 ''x-yz-'' @ utf16 (toString_radix 36 now_ms)"
    using generateId_Echo [of lower now_ms] generateId_spaced [of lower now_ms]
      generateId_blank [of lower now_ms]
    by blast+
  have run: "(list_ex (\<lambda>item. get item ''id'' = Some (JStr newId)) items \<longrightarrow>
            addItem parse stringify lower upper r st t_load now_ms t_item t_data itemData
              = Inl (AlreadyExists newId)) \<and>
         (\<not> list_ex (\<lambda>item. get item ''id'' = Some (JStr newId)) items \<and>
          length (stringify (updatedData_of (loadData parse r st t_load)
                               (items @ [newItem]) t_data)) \<le> quota st \<longrightarrow>
            addItem parse stringify lower upper r st t_load now_ms t_item t_data itemData
              = Inr (items @ [newItem],
                     st\<lparr>slot := Some (stringify (updatedData_of (loadData parse r st t_load)
                                                   (items @ [newItem]) t_data))\<rparr>))"
    by (simp add: step saveToLocalStorage_cases)
  from slug run fields echo ids show ?thesis
    by blast
qed

theorem addItem_contract_witness:
  "lookup input_echo ''name'' = Some (JStr (utf16 ''Echo'')) \<and>
   items_of (loadData parse_demo Rejected \<lparr>slot = None, quota = 5000\<rparr>
               (utf16 ''2026-11-02T09:59:59.999Z'')) = Inr [] \<and>
   addItem parse_demo stringify_demo lower_demo upper_demo Rejected \<lparr>slot = None, quota = 5000\<rparr>
     (utf16 ''2026-11-02T09:59:59.999Z'') 1793613600000 (utf16 ''2026-11-02T10:00:00.000Z'')
     (utf16 ''2026-11-02T10:00:00.001Z'') input_echo
     = Inr ([item_echo], \<lparr>slot = Some text_echo, quota = 5000\<rparr>) \<and>
   get item_echo ''id'' = Some (JStr (utf16 ''echo-mvz38740'')) \<and>
   get item_echo ''logo''
     = Some (JObj [(''bgColor'', JStr (utf16 ''#45de20'')), (''text'', JStr (utf16 ''E''))]) \<and>
   items_of (loadData parse_demo Rejected \<lparr>slot = Some text_echo, quota = 5000\<rparr>
               (utf16 ''2026-11-02T10:00:00.000Z'')) = Inr [item_echo] \<and>
   addItem parse_demo stringify_demo lower_demo upper_demo Rejected
     \<lparr>slot = Some text_echo, quota = 5000\<rparr>
     (utf16 ''2026-11-02T10:00:00.000Z'') 1793613600000 (utf16 ''2026-11-02T10:00:00.000Z'')
     (utf16 ''2026-11-02T10:00:00.001Z'') input_echo
     = Inl (AlreadyExists (utf16 ''echo-mvz38740'')) \<and>
   generateId lower_demo name_spaced 1793613600000 = utf16 ''-my-cool-agent-v2---mvz38740'' \<and>
   generateId lower_demo name_blank 1793613600000 = utf16 ''x-yz-mvz38740''"
proof -
  let ?st = "\<lparr>slot = None, quota = 5000\<rparr>"
  let ?st' = "\<lparr>slot = Some text_echo, quota = 5000\<rparr>"
  let ?t0 = "utf16 ''2026-11-02T09:59:59.999Z''"
  let ?t1 = "utf16 ''2026-11-02T10:00:00.000Z''"
  let ?t2 = "utf16 ''2026-11-02T10:00:00.001Z''"
  have name: "lookup input_echo ''name'' = Some (JStr (utf16 ''Echo''))"
    by (simp add: input_echo_def)
  have load: "loadData parse_demo Rejected ?st ?t0 = spec_empty_collection ?t0"
    by (simp add: loadData_cases loadFromLocalStorage_def fetchNavigationData_def)
  have cur: "items_of (loadData parse_demo Rejected ?st ?t0) = Inr []"
    by (simp add: load spec_empty_collection_def items_of_def)
  have nonnull: "JNull \<notin> set []"
    by simp
  have stamp: "utf16 (toString_radix 36 1793613600000) = utf16 ''mvz38740''"
    by (simp add: toString_radix.simps digits36_def)
  have newId: "generateId lower_demo (utf16 ''Echo'') 1793613600000 = utf16 ''echo-mvz38740''"
    by (simp add: generateId_Echo lower_demo_names stamp utf16_append [symmetric])
  note logo = echo_logo
  have newItem: "newItem_of input_echo (utf16 ''echo-mvz38740'')
                   (JObj [(''bgColor'', JStr (utf16 ''#45de20'')), (''text'', JStr (utf16 ''E''))])
                   ?t1 = item_echo"
    by (simp add: newItem_of_def input_echo_def item_echo_def assign_def)
  have saved: "updatedData_of (spec_empty_collection ?t0) [item_echo] ?t2 = doc_echo"
    by (simp add: updatedData_of_def spec_empty_collection_def doc_echo_def assign_def)
  have fits: "length text_echo \<le> 5000"
    by (simp add: text_echo_def)
  note first = addItem_contract [of input_echo "utf16 ''Echo''" parse_demo Rejected ?st
      ?t0 "[]" lower_demo 1793613600000 stringify_demo upper_demo ?t1 ?t2, OF name cur nonnull]
  from first
  have created: "addItem parse_demo stringify_demo lower_demo upper_demo Rejected ?st
     ?t0 1793613600000 ?t1 ?t2 input_echo = Inr ([item_echo], ?st')"
    by (simp add: newId logo newItem load saved stringify_demo_docs fits)
  from first
  have spaced: "generateId lower_demo name_spaced 1793613600000
                  = utf16 ''-my-cool-agent-v2---mvz38740''"
    and blank: "generateId lower_demo name_blank 1793613600000 = utf16 ''x-yz-mvz38740''"
    by (simp_all add: lower_demo_names stamp utf16_append [symmetric])
  have load': "loadData parse_demo Rejected ?st' ?t1 = doc_echo"
    by (simp add: loadData_def loadFromLocalStorage_def parse_demo_texts doc_valid)
       (simp add: text_echo_def)
  have cur': "items_of (loadData parse_demo Rejected ?st' ?t1) = Inr [item_echo]"
    by (simp add: load') (simp add: doc_echo_def items_of_def)
  have nonnull': "JNull \<notin> set [item_echo]"
    by (simp add: item_echo_def)
  have taken: "list_ex (\<lambda>item. get item ''id'' = Some (JStr (utf16 ''echo-mvz38740''))) [item_echo]"
    by (simp add: item_echo_def)
  from addItem_contract [of input_echo "utf16 ''Echo''" parse_demo Rejected ?st'
      ?t1 "[item_echo]" lower_demo 1793613600000 stringify_demo upper_demo ?t1 ?t2,
      OF name cur' nonnull']
    taken
  have refused: "addItem parse_demo stringify_demo lower_demo upper_demo Rejected ?st'
     ?t1 1793613600000 ?t1 ?t2 input_echo = Inl (AlreadyExists (utf16 ''echo-mvz38740''))"
    by (simp only: newId)
  from name cur created cur' refused spaced blank show ?thesis
    by (simp add: item_echo_def)
qed


text \<open>
  C3, as the code has it. The contract of \<^verbatim>\<open>updateItem\<close>, for a current collection whose
  items are not \<^verbatim>\<open>null\<close> and an input that carries neither \<^verbatim>\<open>id\<close> nor \<^verbatim>\<open>logo\<close> (its
  type omits them). If no record carries the given id, the call fails with
  \<^verbatim>\<open>not found\<close> and writes nothing. If one does, the first such record is replaced (the
  write fitting the storage) by the merge of the input over it: the result keeps the
  record's \<^verbatim>\<open>id\<close> and \<^verbatim>\<open>logo\<close>, every field the input has takes the input's value,
  every field the input does not have keeps the record's value, and \<^verbatim>\<open>lastUpdated\<close> is
  the clock reading of the call, whatever the previous value was; the stored collection
  is stamped with the clock reading of the write; the list keeps its length and every
  other record.
\<close>

theorem updateItem_contract:
  assumes cur: "items_of (loadData parse r st t_load) = Inr items"
      and nonnull: "JNull \<notin> set items"
      and no_id: "lookup input ''id'' = None"
      and no_logo: "lookup input ''logo'' = None"
  shows "(\<not> list_ex (\<lambda>item. get item ''id'' = Some (JStr i)) items \<longrightarrow>
            updateItem parse stringify r st t_load t_item t_data i input = Inl (NotFound i)) \<and>
         (\<forall>n. n < length items \<and> get (items ! n) ''id'' = Some (JStr i) \<and>
              \<not> list_ex (\<lambda>item. get item ''id'' = Some (JStr i)) (take n items) \<and>
              length (stringify (updatedData_of (loadData parse r st t_load)
                        (items[n := updatedItem_of (items ! n) input t_item]) t_data))
                \<le> quota st \<longrightarrow>
            (let updatedItem = updatedItem_of (items ! n) input t_item;
                 updatedData = updatedData_of (loadData parse r st t_load)
                                 (items[n := updatedItem]) t_data
             in updateItem parse stringify r st t_load t_item t_data i input
                  = Inr (items[n := updatedItem], st\<lparr>slot := Some (stringify updatedData)\<rparr>) \<and>
                get updatedItem ''id'' = get (items ! n) ''id'' \<and>
                get updatedItem ''logo'' = get (items ! n) ''logo'' \<and>
                get updatedItem ''lastUpdated'' = Some (JStr t_item) \<and>
                (\<forall>k. k \<noteq> ''lastUpdated'' \<longrightarrow>
                     get updatedItem k =
                       (case lookup input k of Some v \<Rightarrow> Some v | None \<Rightarrow> get (items ! n) k)) \<and>
                get updatedData ''lastUpdated'' = Some (JStr t_data) \<and>
                length (items[n := updatedItem]) = length items \<and>
                (\<forall>m. m < length items \<and> m \<noteq> n \<longrightarrow> items[n := updatedItem] ! m = items ! m)))"
proof (intro conjI impI allI)
  assume "\<not> list_ex (\<lambda>item. get item ''id'' = Some (JStr i)) items"
  then show "updateItem parse stringify r st t_load t_item t_data i input = Inl (NotFound i)"
    by (rule updateItem_missing [OF cur nonnull])
next
  fix n
  assume h: "n < length items \<and> get (items ! n) ''id'' = Some (JStr i) \<and>
              \<not> list_ex (\<lambda>item. get item ''id'' = Some (JStr i)) (take n items) \<and>
              length (stringify (updatedData_of (loadData parse r st t_load)
                        (items[n := updatedItem_of (items ! n) input t_item]) t_data))
                \<le> quota st"
  define u where "u = updatedItem_of (items ! n) input t_item"
  define d where "d = updatedData_of (loadData parse r st t_load) (items[n := u]) t_data"
  from h have n: "n < length items" and idn: "get (items ! n) ''id'' = Some (JStr i)"
    and first: "\<not> list_ex (\<lambda>item. get item ''id'' = Some (JStr i)) (take n items)"
    and fits: "length (stringify d) \<le> quota st"
    by (simp_all add: u_def d_def)
  have run: "updateItem parse stringify r st t_load t_item t_data i input
               = Inr (items[n := u], st\<lparr>slot := Some (stringify d)\<rparr>)"
    using fits
    by (simp add: updateItem_found [OF cur nonnull n idn first] saveToLocalStorage_cases
        u_def [symmetric] d_def [symmetric])
  have fields: "get u k = (if k = ''lastUpdated'' then Some (JStr t_item)
                  else (case lookup input k of Some v \<Rightarrow> Some v | None \<Rightarrow> get (items ! n) k))"
    for k
    by (simp add: u_def get_updatedItem_of own_props_get [OF idn] split: option.splits)
  have "get u ''id'' = get (items ! n) ''id''" "get u ''logo'' = get (items ! n) ''logo''"
    "get u ''lastUpdated'' = Some (JStr t_item)"
    by (simp_all add: fields no_id no_logo)
  moreover have "\<forall>k. k \<noteq> ''lastUpdated'' \<longrightarrow>
      get u k = (case lookup input k of Some v \<Rightarrow> Some v | None \<Rightarrow> get (items ! n) k)"
    by (simp add: fields)
  moreover have "get d ''lastUpdated'' = Some (JStr t_data)"
    by (simp add: d_def get_updatedData_of)
  moreover have "length (items[n := u]) = length items"
    "\<forall>m. m < length items \<and> m \<noteq> n \<longrightarrow> items[n := u] ! m = items ! m"
    by simp_all
  ultimately show "let updatedItem = updatedItem_of (items ! n) input t_item;
                 updatedData = updatedData_of (loadData parse r st t_load)
                                 (items[n := updatedItem]) t_data
             in updateItem parse stringify r st t_load t_item t_data i input
                  = Inr (items[n := updatedItem], st\<lparr>slot := Some (stringify updatedData)\<rparr>) \<and>
                get updatedItem ''id'' = get (items ! n) ''id'' \<and>
                get updatedItem ''logo'' = get (items ! n) ''logo'' \<and>
                get updatedItem ''lastUpdated'' = Some (JStr t_item) \<and>
                (\<forall>k. k \<noteq> ''lastUpdated'' \<longrightarrow>
                     get updatedItem k =
                       (case lookup input k of Some v \<Rightarrow> Some v | None \<Rightarrow> get (items ! n) k)) \<and>
                get updatedData ''lastUpdated'' = Some (JStr t_data) \<and>
                length (items[n := updatedItem]) = length items \<and>
                (\<forall>m. m < length items \<and> m \<noteq> n \<longrightarrow> items[n := updatedItem] ! m = items ! m)"
    using run unfolding Let_def u_def [symmetric] d_def [symmetric] by blast
qed

theorem updateItem_contract_witness:
  "items_of (loadData parse_demo Rejected \<lparr>slot = Some text_gamma, quota = 5000\<rparr>
               (utf16 ''2026-11-02T09:59:59.999Z'')) = Inr [item_gamma] \<and>
   JNull \<notin> set [item_gamma] \<and>
   lookup input_gamma ''id'' = None \<and>
   lookup input_gamma ''logo'' = None \<and>
   updateItem parse_demo stringify_demo Rejected \<lparr>slot = Some text_gamma, quota = 5000\<rparr>
     (utf16 ''2026-11-02T09:59:59.999Z'') (utf16 ''2026-11-02T10:00:00.000Z'') (utf16 ''2026-11-02T10:00:00.001Z'')
     (utf16 ''ghost-123'') input_gamma = Inl (NotFound (utf16 ''ghost-123'')) \<and>
   updateItem parse_demo stringify_demo Rejected \<lparr>slot = Some text_gamma, quota = 5000\<rparr>
     (utf16 ''2026-11-02T09:59:59.999Z'') (utf16 ''2026-11-02T10:00:00.000Z'') (utf16 ''2026-11-02T10:00:00.001Z'')
     (utf16 ''gamma-3'') input_gamma
     = Inr ([item_gamma_updated], \<lparr>slot = Some text_gamma_updated, quota = 5000\<rparr>) \<and>
   get item_gamma_updated ''id'' = get item_gamma ''id'' \<and>
   get item_gamma_updated ''logo'' = get item_gamma ''logo'' \<and>
   get item_gamma_updated ''name'' = Some (JStr (utf16 ''Gamma Two'')) \<and>
   get item_gamma_updated ''github'' = get item_gamma ''github'' \<and>
   get item_gamma_updated ''lastUpdated'' = Some (JStr (utf16 ''2026-11-02T10:00:00.000Z''))"
proof -
  let ?st = "\<lparr>slot = Some text_gamma, quota = 5000\<rparr>"
  have cur: "items_of (loadData parse_demo Rejected ?st (utf16 ''2026-11-02T09:59:59.999Z''))
               = Inr [item_gamma]"
    by (simp add: gamma_load gamma_items)
  have nonnull: "JNull \<notin> set [item_gamma]"
    by (simp add: item_gamma_def)
  have no_id: "lookup input_gamma ''id'' = None" and no_logo: "lookup input_gamma ''logo'' = None"
    by (simp_all add: input_gamma_def)
  have ghost: "\<not> list_ex (\<lambda>item. get item ''id'' = Some (JStr (utf16 ''ghost-123''))) [item_gamma]"
    by (simp add: item_gamma_def)
  have first: "0 < length [item_gamma] \<and> get ([item_gamma] ! 0) ''id'' = Some (JStr (utf16 ''gamma-3'')) \<and>
               \<not> list_ex (\<lambda>item. get item ''id'' = Some (JStr (utf16 ''gamma-3''))) (take 0 [item_gamma])"
    by (simp add: item_gamma_def)
  have missing: "updateItem parse_demo stringify_demo Rejected ?st
     (utf16 ''2026-11-02T09:59:59.999Z'') (utf16 ''2026-11-02T10:00:00.000Z'') (utf16 ''2026-11-02T10:00:00.001Z'')
     (utf16 ''ghost-123'') input_gamma = Inl (NotFound (utf16 ''ghost-123''))"
    using updateItem_contract [OF cur nonnull no_id no_logo, of "(utf16 ''ghost-123'')" stringify_demo
        "(utf16 ''2026-11-02T10:00:00.000Z'')" "(utf16 ''2026-11-02T10:00:00.001Z'')"] ghost
    by blast
  have found: "updateItem parse_demo stringify_demo Rejected ?st
       (utf16 ''2026-11-02T09:59:59.999Z'') (utf16 ''2026-11-02T10:00:00.000Z'') (utf16 ''2026-11-02T10:00:00.001Z'')
       (utf16 ''gamma-3'') input_gamma
       = Inr ([item_gamma_updated], \<lparr>slot = Some text_gamma_updated, quota = 5000\<rparr>) \<and>
     get item_gamma_updated ''id'' = get item_gamma ''id'' \<and>
     get item_gamma_updated ''logo'' = get item_gamma ''logo''"
    using updateItem_contract [OF cur nonnull no_id no_logo, of "(utf16 ''gamma-3'')" stringify_demo
        "(utf16 ''2026-11-02T10:00:00.000Z'')" "(utf16 ''2026-11-02T10:00:00.001Z'')", THEN conjunct2,
        THEN spec, of 0] first
    by (simp add: Let_def gamma_load gamma_merged gamma_saved stringify_demo_docs gamma_fits)
  show ?thesis
    using cur nonnull no_id no_logo missing found
    by (simp add: item_gamma_def item_gamma_updated_def)
qed

text \<open>
  The claim C3 as it was stated fails: the clock reading is not compared with the
  stamp it replaces, and a field that the input leaves out is not taken from the
  input. Here a record stamped 2030 and carrying \<^verbatim>\<open>github\<close> is updated at a clock
  reading of 2026 with an input without \<^verbatim>\<open>github\<close>: the new stamp is earlier than the
  old one, and \<^verbatim>\<open>github\<close> is still the record's.
\<close>

theorem updateItem_counterexample:
  "updateItem parse_demo stringify_demo Rejected \<lparr>slot = Some text_gamma, quota = 5000\<rparr>
     (utf16 ''2026-11-02T09:59:59.999Z'') (utf16 ''2026-11-02T10:00:00.000Z'') (utf16 ''2026-11-02T10:00:00.001Z'')
     (utf16 ''gamma-3'') input_gamma
     = Inr ([item_gamma_updated], \<lparr>slot = Some text_gamma_updated, quota = 5000\<rparr>) \<and>
   get item_gamma ''id'' = Some (JStr (utf16 ''gamma-3'')) \<and>
   get item_gamma ''lastUpdated'' = Some (JStr (utf16 ''2030-01-01T00:00:00.000Z'')) \<and>
   get item_gamma_updated ''lastUpdated'' = Some (JStr (utf16 ''2026-11-02T10:00:00.000Z'')) \<and>
   \<not> utf16 ''2030-01-01T00:00:00.000Z'' < utf16 ''2026-11-02T10:00:00.000Z'' \<and>
   lookup input_gamma ''github'' = None \<and>
   get item_gamma_updated ''github'' = Some (JStr (utf16 ''https://github.com/g/g''))"
  using updateItem_gamma
  by (simp add: item_gamma_def item_gamma_updated_def input_gamma_def) (simp add: utf16_def)

text \<open>
  C4. The contract of \<^verbatim>\<open>deleteItem\<close>. Let the current collection hold exactly one record
  with the given id (its items being objects or other values, none of them \<^verbatim>\<open>null\<close>),
  let the write fit the storage, and let \<^verbatim>\<open>JSON.parse\<close> read back what
  \<^verbatim>\<open>JSON.stringify\<close> wrote. Then the first \<^verbatim>\<open>deleteItem\<close> succeeds and returns the items
  without that record, all others unchanged and in their order, one fewer than before.
  A second \<^verbatim>\<open>deleteItem\<close> of the same id, whenever it follows and whatever the
  bundled dataset answers then, fails with \<^verbatim>\<open>not found\<close>, and the current items are
  still the ones the first call returned.
\<close>

theorem deleteItem_twice:
  fixes parse :: "jstring \<Rightarrow> json option" and stringify :: "json \<Rightarrow> jstring"
    and r :: response and st :: storage and t_load t_data i :: jstring
    and items kept :: "json list" and saved :: json
  defines "kept \<equiv> filter (\<lambda>item. get item ''id'' \<noteq> Some (JStr i)) items"
  defines "saved \<equiv> updatedData_of (loadData parse r st t_load) kept t_data"
  assumes empty: "parse [] = None"
      and cur: "items_of (loadData parse r st t_load) = Inr items"
      and nonnull: "JNull \<notin> set items"
      and one: "length (filter (\<lambda>item. get item ''id'' = Some (JStr i)) items) = 1"
      and fits: "length (stringify saved) \<le> quota st"
      and codec: "parse (stringify saved) = Some saved"
  shows "\<exists>st'. deleteItem parse stringify r st t_load t_data i = Inr (kept, st') \<and>
           length kept + 1 = length items \<and>
           (\<forall>r' t_load' t_data'.
              deleteItem parse stringify r' st' t_load' t_data' i = Inl (NotFound i) \<and>
              items_of (loadData parse r' st' t_load') = Inr kept)"
proof -
  define st' where "st' = st\<lparr>slot := Some (stringify saved)\<rparr>"
  have len: "length kept + 1 = length items"
    using filter_id_split [of i items] one by (simp add: kept_def)
  then have "length kept \<noteq> length items" by simp
  then have first: "deleteItem parse stringify r st t_load t_data i = Inr (kept, st')"
    using fits
    by (simp add: deleteItem_eq [OF cur nonnull] saveToLocalStorage_cases
        kept_def [symmetric] saved_def [symmetric] st'_def)
  have again: "deleteItem parse stringify r' st' t_load' t_data' i = Inl (NotFound i) \<and>
               items_of (loadData parse r' st' t_load') = Inr kept" for r' t_load' t_data'
  proof -
    have load: "loadData parse r' st' t_load' = saved"
      by (rule loadData_after_save [of parse stringify saved, OF empty codec])
        (simp_all add: saved_def st'_def)
    have cur': "items_of (loadData parse r' st' t_load') = Inr kept"
      by (simp add: load saved_def)
    have nonnull': "JNull \<notin> set kept"
      using nonnull by (simp add: kept_def)
    have "filter (\<lambda>item. get item ''id'' \<noteq> Some (JStr i)) kept = kept"
      by (simp add: kept_def)
    then show ?thesis
      by (simp add: deleteItem_eq [OF cur' nonnull'] cur')
  qed
  from first len again show ?thesis by blast
qed

theorem deleteItem_twice_witness:
  "parse_demo [] = None \<and>
   items_of (loadData parse_demo Rejected \<lparr>slot = Some text_two, quota = 5000\<rparr>
               (utf16 ''2026-11-02T09:59:59.999Z'')) = Inr [item_alpha, item_beta] \<and>
   JNull \<notin> set [item_alpha, item_beta] \<and>
   length (filter (\<lambda>item. get item ''id'' = Some (JStr (utf16 ''alpha-1''))) [item_alpha, item_beta]) = 1 \<and>
   (\<exists>st'. deleteItem parse_demo stringify_demo Rejected \<lparr>slot = Some text_two, quota = 5000\<rparr>
            (utf16 ''2026-11-02T09:59:59.999Z'') (utf16 ''2026-11-02T10:00:00.000Z'') (utf16 ''alpha-1'')
            = Inr ([item_beta], st') \<and>
          (\<forall>r' t_load' t_data'.
             deleteItem parse_demo stringify_demo r' st' t_load' t_data' (utf16 ''alpha-1'')
               = Inl (NotFound (utf16 ''alpha-1'')) \<and>
             items_of (loadData parse_demo r' st' t_load') = Inr [item_beta]))"
proof -
  let ?st = "\<lparr>slot = Some text_two, quota = 5000\<rparr>"
  have load: "loadData parse_demo Rejected ?st (utf16 ''2026-11-02T09:59:59.999Z'') = doc_two"
    by (simp add: loadData_def loadFromLocalStorage_def parse_demo_texts doc_valid)
       (simp add: text_two_def)
  have cur: "items_of (loadData parse_demo Rejected ?st (utf16 ''2026-11-02T09:59:59.999Z''))
               = Inr [item_alpha, item_beta]"
    by (simp add: load) (simp add: doc_two_def items_of_def)
  have nonnull: "JNull \<notin> set [item_alpha, item_beta]"
    by (simp add: item_defs)
  have kept: "filter (\<lambda>item. get item ''id'' \<noteq> Some (JStr (utf16 ''alpha-1''))) [item_alpha, item_beta]
                = [item_beta]"
    by (simp add: item_defs)
  have one: "length (filter (\<lambda>item. get item ''id'' = Some (JStr (utf16 ''alpha-1'')))
                       [item_alpha, item_beta]) = 1"
    by (simp add: item_defs)
  have saved: "updatedData_of doc_two [item_beta] (utf16 ''2026-11-02T10:00:00.000Z'') = doc_beta"
    by (simp add: updatedData_of_def doc_two_def doc_beta_def assign_def)
  have fits: "length (stringify_demo (updatedData_of
                 (loadData parse_demo Rejected ?st (utf16 ''2026-11-02T09:59:59.999Z''))
                 (filter (\<lambda>item. get item ''id'' \<noteq> Some (JStr (utf16 ''alpha-1'')))
                    [item_alpha, item_beta])
                 (utf16 ''2026-11-02T10:00:00.000Z''))) \<le> quota ?st"
    by (simp only: load kept saved stringify_demo_docs) (simp add: text_beta_def)
  have codec: "parse_demo (stringify_demo (updatedData_of
                 (loadData parse_demo Rejected ?st (utf16 ''2026-11-02T09:59:59.999Z''))
                 (filter (\<lambda>item. get item ''id'' \<noteq> Some (JStr (utf16 ''alpha-1'')))
                    [item_alpha, item_beta])
                 (utf16 ''2026-11-02T10:00:00.000Z'')))
               = Some (updatedData_of
                 (loadData parse_demo Rejected ?st (utf16 ''2026-11-02T09:59:59.999Z''))
                 (filter (\<lambda>item. get item ''id'' \<noteq> Some (JStr (utf16 ''alpha-1'')))
                    [item_alpha, item_beta])
                 (utf16 ''2026-11-02T10:00:00.000Z''))"
    by (simp only: load kept saved stringify_demo_docs parse_demo_texts)
  from deleteItem_twice [of parse_demo Rejected ?st "(utf16 ''2026-11-02T09:59:59.999Z'')"
      "[item_alpha, item_beta]" "(utf16 ''alpha-1'')" stringify_demo "(utf16 ''2026-11-02T10:00:00.000Z'')",
      OF parse_demo_empty cur nonnull one fits codec]
  have twice: "\<exists>st'. deleteItem parse_demo stringify_demo Rejected ?st
            (utf16 ''2026-11-02T09:59:59.999Z'') (utf16 ''2026-11-02T10:00:00.000Z'') (utf16 ''alpha-1'')
            = Inr ([item_beta], st') \<and>
          (\<forall>r' t_load' t_data'.
             deleteItem parse_demo stringify_demo r' st' t_load' t_data' (utf16 ''alpha-1'')
               = Inl (NotFound (utf16 ''alpha-1'')) \<and>
             items_of (loadData parse_demo r' st' t_load') = Inr [item_beta])"
    unfolding kept by blast
  show ?thesis
    by (rule conjI [OF parse_demo_empty conjI [OF cur conjI [OF nonnull conjI [OF one twice]]]])
qed




text \<open>
  C6, as the code has it. Data supplied from outside is gated by the collection-level
  check alone: an uploaded file, the content of the local overlay and the payload of
  the bundled dataset are each accepted exactly when the text parses and the parsed
  value passes \<^verbatim>\<open>isValidNavigationData\<close>, and that check holds of a collection whatever
  its items are. (\<^verbatim>\<open>JSON.parse\<close> throws on the empty text.)
\<close>

theorem external_data_gate:
  assumes "parse [] = None"
  shows "(uploadFromJsonFile parse (FileText text) = Inr d
            \<longleftrightarrow> parse text = Some d \<and> isValidNavigationData d) \<and>
         (loadFromLocalStorage parse (st\<lparr>slot := Some text\<rparr>) = Some d
            \<longleftrightarrow> parse text = Some d \<and> isValidNavigationData d) \<and>
         (fetchNavigationData parse (Response True code msg text) = Inr d
            \<longleftrightarrow> parse text = Some d \<and> isValidNavigationData d) \<and>
         isValidNavigationData (JObj [(''items'', JArr xs), (''lastUpdated'', JStr s)])"
proof -
  have "uploadFromJsonFile parse (FileText text) = Inr d
            \<longleftrightarrow> parse text = Some d \<and> isValidNavigationData d"
    by (auto simp: uploadFromJsonFile_def split: option.splits)
  moreover have "loadFromLocalStorage parse (st\<lparr>slot := Some text\<rparr>) = Some d
            \<longleftrightarrow> parse text = Some d \<and> isValidNavigationData d"
    using assms by (auto simp: loadFromLocalStorage_def split: option.splits)
  moreover have "fetchNavigationData parse (Response True code msg text) = Inr d
            \<longleftrightarrow> parse text = Some d \<and> isValidNavigationData d"
    by (auto simp: fetchNavigationData_def split: option.splits)
  moreover have "isValidNavigationData (JObj [(''items'', JArr xs), (''lastUpdated'', JStr s)])"
    by (simp add: isValidNavigationData_def)
  ultimately show ?thesis by blast
qed

theorem external_data_gate_witness:
  "parse_demo [] = None \<and>
   uploadFromJsonFile parse_demo (FileText text_untyped) = Inr doc_untyped \<and>
   loadFromLocalStorage parse_demo \<lparr>slot = Some text_untyped, quota = 5000\<rparr> = Some doc_untyped \<and>
   fetchNavigationData parse_demo (Response True 200 ''OK'' text_untyped) = Inr doc_untyped \<and>
   uploadFromJsonFile parse_demo (FileText text_no_items) \<noteq> Inr doc_no_items"
  using external_data_gate [of parse_demo text_untyped doc_untyped
      "\<lparr>slot = None, quota = 5000\<rparr>" 200 "''OK''", OF parse_demo_empty]
    external_data_gate [of parse_demo text_no_items doc_no_items
      "\<lparr>slot = None, quota = 5000\<rparr>" 200 "''OK''", OF parse_demo_empty]
  by (simp add: parse_demo_empty parse_demo_texts doc_valid)

text \<open>
  The claim C6 as it was stated fails: \<^verbatim>\<open>isValidItem\<close> is applied nowhere. A file whose
  first item has a number for \<^verbatim>\<open>id\<close> and no other field is accepted by the import and
  as overlay content although that item fails \<^verbatim>\<open>isValidItem\<close>; and when the bundled
  dataset holds it, the first mutation writes it to the overlay.
\<close>

theorem record_check_counterexample:
  "uploadFromJsonFile parse_demo (FileText text_untyped) = Inr doc_untyped \<and>
   loadFromLocalStorage parse_demo \<lparr>slot = Some text_untyped, quota = 5000\<rparr> = Some doc_untyped \<and>
   items_of doc_untyped = Inr [item_untyped, item_beta] \<and>
   \<not> isValidItem item_untyped \<and>
   deleteItem parse_demo stringify_demo (Response True 200 ''OK'' text_untyped)
     \<lparr>slot = None, quota = 5000\<rparr> (utf16 ''2026-11-02T09:59:59.999Z'') (utf16 ''2026-11-02T10:00:00.000Z'')
     (utf16 ''beta-2'') = Inr ([item_untyped], \<lparr>slot = Some text_untyped_left, quota = 5000\<rparr>) \<and>
   parse_demo text_untyped_left = Some doc_untyped_left \<and>
   items_of doc_untyped_left = Inr [item_untyped]"
proof -
  let ?st = "\<lparr>slot = None, quota = 5000\<rparr>"
  let ?r = "Response True 200 ''OK'' text_untyped"
  have upload: "uploadFromJsonFile parse_demo (FileText text_untyped) = Inr doc_untyped"
    by (simp add: uploadFromJsonFile_def parse_demo_texts doc_valid)
  have overlay: "loadFromLocalStorage parse_demo \<lparr>slot = Some text_untyped, quota = 5000\<rparr>
                   = Some doc_untyped"
    by (simp add: loadFromLocalStorage_def parse_demo_texts doc_valid) (simp add: text_untyped_def)
  have items: "items_of doc_untyped = Inr [item_untyped, item_beta]"
    by (simp add: doc_untyped_def items_of_def)
  have invalid: "\<not> isValidItem item_untyped"
    by (simp add: isValidItem_def item_untyped_def)
  have load: "loadData parse_demo ?r ?st (utf16 ''2026-11-02T09:59:59.999Z'') = doc_untyped"
    by (simp add: loadData_cases loadFromLocalStorage_def fetchNavigationData_def
        parse_demo_texts doc_valid)
  have kept: "js_filter (id_is_not (utf16 ''beta-2'')) [item_untyped, item_beta] = Inr [item_untyped]"
    by (simp add: item_untyped_def item_beta_def id_is_not_def)
  have saved: "updatedData_of doc_untyped [item_untyped] (utf16 ''2026-11-02T10:00:00.000Z'')
                 = doc_untyped_left"
    by (simp add: updatedData_of_def doc_untyped_def doc_untyped_left_def assign_def)
  have fits: "length text_untyped_left \<le> 5000"
    by (simp add: text_untyped_left_def)
  have run: "deleteItem parse_demo stringify_demo ?r ?st (utf16 ''2026-11-02T09:59:59.999Z'')
               (utf16 ''2026-11-02T10:00:00.000Z'') (utf16 ''beta-2'')
             = Inr ([item_untyped], \<lparr>slot = Some text_untyped_left, quota = 5000\<rparr>)"
    by (simp add: deleteItem_def load items kept saved saveToLocalStorage_cases
        stringify_demo_docs fits del: js_filter.simps)
  have left: "items_of doc_untyped_left = Inr [item_untyped]"
    by (simp add: doc_untyped_left_def items_of_def)
  from upload overlay items invalid run left show ?thesis
    by (simp add: parse_demo_texts)
qed

text \<open>
  C7. What the import handler does at a failing input: the overlay holds one local
  record and the file two others. After the import the page shows the two records of
  the file, but the overlay is as before; \<^verbatim>\<open>loadNavigationData\<close> still returns the
  collection from before the import, and deleting a record that the page now shows
  fails with \<^verbatim>\<open>not found\<close>.
\<close>

theorem handleImportData_does_not_persist:
  "handleImportData parse_demo (Some (FileText text_two))
     \<lparr>store = \<lparr>slot = Some text_local, quota = 5000\<rparr>, shown = [item_mine]\<rparr>
     = \<lparr>store = \<lparr>slot = Some text_local, quota = 5000\<rparr>, shown = [item_alpha, item_beta]\<rparr> \<and>
   loadNavigationData parse_demo (Response True 200 ''OK'' text_seed)
     \<lparr>slot = Some text_local, quota = 5000\<rparr> = Inr doc_local \<and>
   items_of doc_local = Inr [item_mine] \<and>
   deleteItem parse_demo stringify_demo (Response True 200 ''OK'' text_seed)
     \<lparr>slot = Some text_local, quota = 5000\<rparr> (utf16 ''2026-11-02T09:59:59.999Z'')
     (utf16 ''2026-11-02T10:00:00.000Z'') (utf16 ''alpha-1'') = Inl (NotFound (utf16 ''alpha-1''))"
proof -
  let ?st = "\<lparr>slot = Some text_local, quota = 5000\<rparr>"
  let ?r = "Response True 200 ''OK'' text_seed"
  have upload: "uploadFromJsonFile parse_demo (FileText text_two) = Inr doc_two"
    by (simp add: uploadFromJsonFile_def parse_demo_texts doc_valid)
  have items: "items_of doc_two = Inr [item_alpha, item_beta]"
    by (simp add: doc_two_def items_of_def)
  have page: "handleImportData parse_demo (Some (FileText text_two)) \<lparr>store = ?st, shown = [item_mine]\<rparr>
          = \<lparr>store = ?st, shown = [item_alpha, item_beta]\<rparr>"
    by (simp add: handleImportData_def upload items)
  have overlay: "loadFromLocalStorage parse_demo ?st = Some doc_local"
    by (simp add: loadFromLocalStorage_def parse_demo_texts doc_valid) (simp add: text_local_def)
  have resolve: "loadNavigationData parse_demo ?r ?st = Inr doc_local"
    by (simp add: loadNavigationData_cases overlay)
  have load: "loadData parse_demo ?r ?st (utf16 ''2026-11-02T09:59:59.999Z'') = doc_local"
    by (simp add: loadData_cases overlay)
  have local: "items_of doc_local = Inr [item_mine]"
    by (simp add: doc_local_def items_of_def)
  have kept: "js_filter (id_is_not (utf16 ''alpha-1'')) [item_mine] = Inr [item_mine]"
    by (simp add: item_mine_def id_is_not_def)
  have gone: "deleteItem parse_demo stringify_demo ?r ?st (utf16 ''2026-11-02T09:59:59.999Z'')
                (utf16 ''2026-11-02T10:00:00.000Z'') (utf16 ''alpha-1'') = Inl (NotFound (utf16 ''alpha-1''))"
    by (simp add: deleteItem_def load local kept del: js_filter.simps)
  from page resolve local gone show ?thesis by simp
qed

text \<open>
  C8. The fallback of the mutations. The state a mutation works on, \<^verbatim>\<open>loadData\<close>, is the
  local overlay if it is present and valid, else the fetched bundled dataset, else,
  when that fetch fails too, the empty collection stamped with the time of the call. It
  is always a structurally valid collection with a list of items, so that no mutation
  fails with a failure of loading: \<^verbatim>\<open>addItem\<close>, \<^verbatim>\<open>updateItem\<close> and \<^verbatim>\<open>deleteItem\<close> only ever fail with a
  \<^verbatim>\<open>TypeError\<close>, a refused write, an existing id or a missing id.
  (\<^verbatim>\<open>JSON.parse\<close> throws on the empty text.)
\<close>

theorem loadData_fallback:
  assumes "parse [] = None"
  shows "loadData parse r st now =
           (case spec_overlay parse st of
              Some overlay \<Rightarrow> overlay
            | None \<Rightarrow>
                (case fetchNavigationData parse r of
                   Inr bundled \<Rightarrow> bundled
                 | Inl e \<Rightarrow> spec_empty_collection now)) \<and>
         isValidNavigationData (loadData parse r st now) \<and>
         (\<exists>items. items_of (loadData parse r st now) = Inr items) \<and>
         (\<forall>e. addItem parse stringify lower upper r st now now_ms t_item t_data itemData = Inl e
              \<longrightarrow> \<not> is_load_error e) \<and>
         (\<forall>e. updateItem parse stringify r st now t_item t_data itemId itemData = Inl e
              \<longrightarrow> \<not> is_load_error e) \<and>
         (\<forall>e. deleteItem parse stringify r st now t_data itemId = Inl e
              \<longrightarrow> \<not> is_load_error e)"
proof -
  have "loadData parse r st now =
           (case spec_overlay parse st of
              Some overlay \<Rightarrow> overlay
            | None \<Rightarrow>
                (case fetchNavigationData parse r of
                   Inr bundled \<Rightarrow> bundled
                 | Inl e \<Rightarrow> spec_empty_collection now))"
    using assms by (simp add: loadData_cases loadFromLocalStorage_spec)
  moreover have "isValidNavigationData (loadData parse r st now)"
    by (rule loadData_valid)
  moreover have "\<exists>items. items_of (loadData parse r st now) = Inr items"
    by (rule items_of_valid [OF loadData_valid])
  moreover have "\<not> is_load_error e"
    if "addItem parse stringify lower upper r st now now_ms t_item t_data itemData = Inl e" for e
    using addItem_error [OF that] by (auto simp: is_load_error_def)
  moreover have "\<not> is_load_error e"
    if "updateItem parse stringify r st now t_item t_data itemId itemData = Inl e" for e
    using updateItem_error [OF that] by (auto simp: is_load_error_def)
  moreover have "\<not> is_load_error e"
    if "deleteItem parse stringify r st now t_data itemId = Inl e" for e
    using deleteItem_error [OF that] by (auto simp: is_load_error_def)
  ultimately show ?thesis by blast
qed

theorem loadData_fallback_witness:
  "parse_demo [] = None \<and>
   loadData parse_demo (Response False 503 ''Service Unavailable'' [])
     \<lparr>slot = None, quota = 5000\<rparr> (utf16 ''2026-11-02T10:00:00.000Z'')
     = spec_empty_collection (utf16 ''2026-11-02T10:00:00.000Z'') \<and>
   isValidNavigationData
     (loadData parse_demo (Response False 503 ''Service Unavailable'' [])
        \<lparr>slot = None, quota = 5000\<rparr> (utf16 ''2026-11-02T10:00:00.000Z'')) \<and>
   addItem parse_demo stringify_demo lower_demo upper_demo (Response False 503 ''Service Unavailable'' [])
     \<lparr>slot = None, quota = 5000\<rparr> (utf16 ''2026-11-02T10:00:00.000Z'') 1793613600000
     (utf16 ''2026-11-02T10:00:00.001Z'') (utf16 ''2026-11-02T10:00:00.002Z'') [] = Inl TypeError \<and>
   \<not> is_load_error TypeError \<and>
   updateItem parse_demo stringify_demo (Response False 503 ''Service Unavailable'' [])
     \<lparr>slot = None, quota = 5000\<rparr> (utf16 ''2026-11-02T10:00:00.000Z'') (utf16 ''2026-11-02T10:00:00.001Z'')
     (utf16 ''2026-11-02T10:00:00.002Z'') (utf16 ''ghost-123'') input_gamma = Inl (NotFound (utf16 ''ghost-123'')) \<and>
   deleteItem parse_demo stringify_demo (Response False 503 ''Service Unavailable'' [])
     \<lparr>slot = None, quota = 5000\<rparr> (utf16 ''2026-11-02T10:00:00.000Z'') (utf16 ''2026-11-02T10:00:00.001Z'')
     (utf16 ''ghost-123'') = Inl (NotFound (utf16 ''ghost-123'')) \<and>
   \<not> is_load_error (NotFound (utf16 ''ghost-123''))"
proof -
  let ?r = "Response False 503 ''Service Unavailable'' []"
  let ?st = "\<lparr>slot = None, quota = 5000\<rparr>"
  note empty = parse_demo_empty
  have none: "spec_overlay parse_demo ?st = None"
    by (simp add: spec_overlay_def)
  have down: "fetchNavigationData parse_demo ?r = Inl (FetchFailed 503 ''Service Unavailable'')"
    by (simp add: fetchNavigationData_def)
  note fallback = loadData_fallback [of parse_demo ?r ?st "(utf16 ''2026-11-02T10:00:00.000Z'')", OF empty]
  have load: "loadData parse_demo ?r ?st (utf16 ''2026-11-02T10:00:00.000Z'')
                = spec_empty_collection (utf16 ''2026-11-02T10:00:00.000Z'')"
    using fallback by (simp add: none down)
  have cur: "items_of (spec_empty_collection (utf16 ''2026-11-02T10:00:00.000Z'')) = Inr []"
    by (simp add: spec_empty_collection_def items_of_def)
  have nameless: "addItem parse_demo stringify_demo lower_demo upper_demo ?r ?st (utf16 ''2026-11-02T10:00:00.000Z'')
                1793613600000 (utf16 ''2026-11-02T10:00:00.001Z'') (utf16 ''2026-11-02T10:00:00.002Z'') []
              = Inl TypeError"
    by (simp add: addItem_def)
  have missing: "updateItem parse_demo stringify_demo ?r ?st (utf16 ''2026-11-02T10:00:00.000Z'')
                (utf16 ''2026-11-02T10:00:00.001Z'') (utf16 ''2026-11-02T10:00:00.002Z'') (utf16 ''ghost-123'')
                input_gamma = Inl (NotFound (utf16 ''ghost-123''))"
    by (simp add: updateItem_def load cur)
  have gone: "deleteItem parse_demo stringify_demo ?r ?st (utf16 ''2026-11-02T10:00:00.000Z'')
                (utf16 ''2026-11-02T10:00:00.001Z'') (utf16 ''ghost-123'') = Inl (NotFound (utf16 ''ghost-123''))"
    by (simp add: deleteItem_def load cur)
  show ?thesis
    using empty load nameless missing gone
    by (simp add: spec_empty_collection_valid is_load_error_def)
qed






end
